theory Spec2Isabelle
  imports Complex_Main "HOL-Library.AList" "HOL-Library.FSet"
begin

section \<open>Common data\<close>

text \<open>
  JavaScript numbers are modelled by rationals: every multiplier the pages compute is a
  product of the constants 0, 0.5, 1 and 2, which doubles represent exactly for the one or
  two defending types a creature has. Timestamps (epoch milliseconds) are integers.
  Strings are byte lists; \<open>toLowerCase\<close> lowers the ASCII letters, which is what
  \<open>String.prototype.toLowerCase\<close> does on the ASCII names the type registry and the
  remote API use.
\<close>

definition lower_char :: "char \<Rightarrow> char" where
  "lower_char c =
     (if 65 \<le> (of_char c :: nat) \<and> (of_char c :: nat) \<le> 90
      then char_of (of_char c + 32 :: nat) else c)"

definition toLowerCase :: "string \<Rightarrow> string" where
  "toLowerCase s = map lower_char s"

subsection \<open>The type registry (src/lib/pokemonTypes.ts)\<close>

record TypeData =
  type_id :: string
  type_name :: string
  color :: string
  textColor :: "string option"

definition POKEMON_TYPES :: "TypeData list" where
  "POKEMON_TYPES =
    [\<lparr>type_id = ''type-normal'', type_name = ''Normal'', color = ''#A8A77A'', textColor = Some ''#000000''\<rparr>,
     \<lparr>type_id = ''type-fire'', type_name = ''Fire'', color = ''#EE8130'', textColor = Some ''#FFFFFF''\<rparr>,
     \<lparr>type_id = ''type-water'', type_name = ''Water'', color = ''#6390F0'', textColor = Some ''#FFFFFF''\<rparr>,
     \<lparr>type_id = ''type-electric'', type_name = ''Electric'', color = ''#F7D02C'', textColor = Some ''#000000''\<rparr>,
     \<lparr>type_id = ''type-grass'', type_name = ''Grass'', color = ''#7AC74C'', textColor = Some ''#000000''\<rparr>,
     \<lparr>type_id = ''type-ice'', type_name = ''Ice'', color = ''#96D9D6'', textColor = Some ''#000000''\<rparr>,
     \<lparr>type_id = ''type-fighting'', type_name = ''Fighting'', color = ''#C22E28'', textColor = Some ''#FFFFFF''\<rparr>,
     \<lparr>type_id = ''type-poison'', type_name = ''Poison'', color = ''#A33EA1'', textColor = Some ''#FFFFFF''\<rparr>,
     \<lparr>type_id = ''type-ground'', type_name = ''Ground'', color = ''#E2BF65'', textColor = Some ''#000000''\<rparr>,
     \<lparr>type_id = ''type-flying'', type_name = ''Flying'', color = ''#A98FF3'', textColor = Some ''#000000''\<rparr>,
     \<lparr>type_id = ''type-psychic'', type_name = ''Psychic'', color = ''#F95587'', textColor = Some ''#FFFFFF''\<rparr>,
     \<lparr>type_id = ''type-bug'', type_name = ''Bug'', color = ''#A6B91A'', textColor = Some ''#000000''\<rparr>,
     \<lparr>type_id = ''type-rock'', type_name = ''Rock'', color = ''#B6A136'', textColor = Some ''#000000''\<rparr>,
     \<lparr>type_id = ''type-ghost'', type_name = ''Ghost'', color = ''#735797'', textColor = Some ''#FFFFFF''\<rparr>,
     \<lparr>type_id = ''type-dragon'', type_name = ''Dragon'', color = ''#6F35FC'', textColor = Some ''#FFFFFF''\<rparr>,
     \<lparr>type_id = ''type-steel'', type_name = ''Steel'', color = ''#B7B7CE'', textColor = Some ''#000000''\<rparr>,
     \<lparr>type_id = ''type-dark'', type_name = ''Dark'', color = ''#705746'', textColor = Some ''#FFFFFF''\<rparr>,
     \<lparr>type_id = ''type-fairy'', type_name = ''Fairy'', color = ''#D685AD'', textColor = Some ''#000000''\<rparr>]"

subsection \<open>Records of the remote API\<close>

text \<open>\<open>PokemonType\<close> is the \<open>{name, url}\<close> pair the API uses for a type reference.\<close>

record PokemonType =
  name :: string
  url :: string

text \<open>
  The body of \<open>GET /type/{id}\<close>, as far as the pages read it: the field
  \<open>damage_relations\<close> with its three lists.
\<close>

record damage_relations =
  double_damage_from :: "PokemonType list"
  half_damage_from :: "PokemonType list"
  no_damage_from :: "PokemonType list"

text \<open>
  The outcome of one \<open>fetch\<close>: the promise rejects (with the message of the error), or it
  resolves to a response with a status and a body. The body is what \<open>response.json()\<close>
  gives: \<open>Inl\<close> the message of the error thrown when the body does not decode to a record
  with the fields the page reads, \<open>Inr\<close> the record. \<open>response.ok\<close> is, by the Fetch
  standard, a status from 200 to 299.
\<close>

datatype 'a fetched = Rejected string | Response nat "string + 'a"

definition ok :: "nat \<Rightarrow> bool" where
  "ok status = (200 \<le> status \<and> status \<le> 299)"

text \<open>
  \<open>Promise.all\<close> over promises that are already settled: the list of values, or the first
  rejection (in list order; the source would report whichever arrives first).
\<close>

fun promise_all :: "(string + 'a) list \<Rightarrow> string + 'a list" where
  "promise_all [] = Inr []"
| "promise_all (Inl e # ps) = Inl e"
| "promise_all (Inr x # ps) =
     (case promise_all ps of Inl e \<Rightarrow> Inl e | Inr xs \<Rightarrow> Inr (x # xs))"

section \<open>The quiz page (src/app/guesser/page.tsx)\<close>

definition MAX_POKEMON_ID :: int where
  "MAX_POKEMON_ID = 905"

datatype TypeCheckResult = NONE | CORRECT | INCORRECT | MISSED

record type_slot =
  slot :: nat
  type_ref :: PokemonType

text \<open>
  \<open>Pokemon\<close>: \<open>front_default\<close> is \<open>sprites.front_default\<close> and \<open>official_artwork\<close> is
  \<open>sprites.other?.['official-artwork']?.front_default\<close>; \<open>None\<close> stands for a null or
  missing value.
\<close>

record Pokemon =
  pokemon_id :: int
  pokemon_name :: string
  front_default :: "string option"
  official_artwork :: "string option"
  types :: "type_slot list"

subsection \<open>calculateEffectiveness\<close>

definition fetchTypeDetails ::
  "(string \<Rightarrow> damage_relations fetched) \<Rightarrow> string \<Rightarrow> string + damage_relations" where
  "fetchTypeDetails net typeUrl =
     (case net typeUrl of
        Rejected msg \<Rightarrow> Inl msg
      | Response status body \<Rightarrow>
          if \<not> ok status then Inl (''Failed to fetch type details from '' @ typeUrl)
          else body)"

definition currentMultiplier :: "damage_relations \<Rightarrow> TypeData \<Rightarrow> rat" where
  "currentMultiplier defendingTypeDetail attackingType =
     (if list_ex (\<lambda>t. name t = toLowerCase (type_name attackingType))
           (double_damage_from defendingTypeDetail) then 2
      else if list_ex (\<lambda>t. name t = toLowerCase (type_name attackingType))
           (half_damage_from defendingTypeDetail) then 1 / 2
      else if list_ex (\<lambda>t. name t = toLowerCase (type_name attackingType))
           (no_damage_from defendingTypeDetail) then 0
      else 1)"

definition finalMultiplier :: "damage_relations list \<Rightarrow> TypeData \<Rightarrow> rat" where
  "finalMultiplier defendingTypesDetails attackingType =
     foldl (\<lambda>m d. m * currentMultiplier d attackingType) 1 defendingTypesDetails"

text \<open>
  A JavaScript \<open>Map\<close> is an association list in insertion order; \<open>Map.set\<close> is
  \<open>AList.update\<close> (replace in place, or append) and \<open>Map.get\<close> is \<open>map_of\<close>.
\<close>

definition calculatedEffectivenessMap :: "damage_relations list \<Rightarrow> (string \<times> rat) list" where
  "calculatedEffectivenessMap defendingTypesDetails =
     foldl (\<lambda>m attackingType.
              AList.update (type_name attackingType)
                (finalMultiplier defendingTypesDetails attackingType) m)
       [] POKEMON_TYPES"

text \<open>
  \<open>calculateEffectiveness\<close> returns \<open>Inl\<close> when a type fetch throws (nothing is stored
  then) and \<open>Inr\<close> the map it hands to \<open>setCorrectEffectiveness\<close> otherwise.
\<close>

definition calculateEffectiveness ::
  "(string \<Rightarrow> damage_relations fetched) \<Rightarrow> Pokemon \<Rightarrow> string + (string \<times> rat) list" where
  "calculateEffectiveness net pokemon =
     (case promise_all (map (\<lambda>pt. fetchTypeDetails net (url (type_ref pt))) (types pokemon)) of
        Inl e \<Rightarrow> Inl e
      | Inr defendingTypesDetails \<Rightarrow> Inr (calculatedEffectivenessMap defendingTypesDetails))"

subsection \<open>The per-relation factor, as the specification words it\<close>

text \<open>
  The three relation lists read as sets of type names; the attacking type is looked up
  under its API name (lower case).
\<close>

definition relation_factor :: "damage_relations \<Rightarrow> string \<Rightarrow> rat" where
  "relation_factor d a =
     (if a \<in> name ` set (double_damage_from d) then 2
      else if a \<in> name ` set (half_damage_from d) then 1 / 2
      else if a \<in> name ` set (no_damage_from d) then 0
      else 1)"


text \<open>
  The relation record of a type as the data model has it: three sets of lower-case type
  names, no name in two of them and none twice.
\<close>

definition disjoint_relations :: "damage_relations \<Rightarrow> bool" where
  "disjoint_relations d =
     (distinct (map name (double_damage_from d @ half_damage_from d @ no_damage_from d)) \<and>
      list_all (\<lambda>t. toLowerCase (name t) = name t)
        (double_damage_from d @ half_damage_from d @ no_damage_from d))"

section \<open>The detail page (src/app/pokedex/[pokemonName]/page.tsx)\<close>

record AbilityInfo =
  ability_name :: string
  ability_url :: string
  is_hidden :: bool

text \<open>
  \<open>PokemonData\<close> with the fields the loading logic reads (sprites, stats, height and
  weight only feed the rendering).
\<close>

record PokemonData =
  pd_id :: int
  pd_name :: string
  pd_types :: "type_slot list"
  abilities :: "AbilityInfo list"
  species_url :: string

text \<open>
  The numbers of the per-page effectiveness object: \<open>x *= r\<close> on a key the object does
  not have stores \<open>NaN\<close>.
\<close>

datatype number = NaN | Num rat

record TypeEffectivenessEntry =
  entry_name :: string
  multiplier :: number

record NavLinkInfo =
  nav_id :: int
  nav_name :: string
  displayName :: string

record CachedPokemonData =
  data :: PokemonData
  timestamp :: int

definition CACHE_EXPIRY_MS :: int where
  "CACHE_EXPIRY_MS = 5 * 60 * 1000"

definition MAX_POKEMON_ID_FOR_NAV :: int where
  "MAX_POKEMON_ID_FOR_NAV = 1025"

text \<open>
  The requests the page sends, in order. A detail request carries the \<open>isPreload\<close> flag of
  the call that sent it (the source logs \<open>[Preloading]\<close> for it).
\<close>

datatype request = PokemonRequest string bool | NavRequest int | TypeRequest string

text \<open>
  The world outside the page: the \<open>n\<close>-th reading of \<open>Date.now()\<close>, the answers of the
  API to \<open>GET pokemon/{key}\<close>, \<open>GET pokemon/{id}\<close> and to a type URL, and the outcome
  of the species and evolution-chain block at the head of \<open>fetchPageSpecificDetails\<close>
  (\<open>Some\<close> the message of the error it throws). An answer depends on the request only.
\<close>

record detail_env =
  clock :: "nat \<Rightarrow> int"
  fetchPokemon :: "string \<Rightarrow> PokemonData fetched"
  fetchPokemonId :: "int \<Rightarrow> PokemonData fetched"
  speciesBlock :: "PokemonData \<Rightarrow> string option"
  fetchType :: "string \<Rightarrow> damage_relations fetched"

text \<open>
  The state the page keeps: its React state, the module-level \<open>pokemonDataCache\<close>, the
  requests sent so far and the number of clock readings taken so far.
\<close>

record detail_page =
  pokemonData :: "PokemonData option"
  typeEffectiveness :: "TypeEffectivenessEntry list option"
  isLoading :: bool
  error :: "string option"
  prevPokemonLink :: "NavLinkInfo option"
  nextPokemonLink :: "NavLinkInfo option"
  abilityEffectOnGround :: "string option"
  pokemonDataCache :: "string \<rightharpoonup> CachedPokemonData"
  requests :: "request list"
  reads :: nat

text \<open>\<open>name.replace('-', ' ')\<close> replaces the first hyphen only.\<close>

fun replace_hyphen :: "string \<Rightarrow> string" where
  "replace_hyphen [] = []"
| "replace_hyphen (c # cs) = (if c = CHR ''-'' then CHR '' '' # cs else c # replace_hyphen cs)"

definition fetchPokemonNavInfoById ::
  "detail_env \<Rightarrow> int \<Rightarrow> detail_page \<Rightarrow> NavLinkInfo option \<times> detail_page" where
  "fetchPokemonNavInfoById env i s =
     (if i \<le> 0 \<or> i > MAX_POKEMON_ID_FOR_NAV then (None, s)
      else
        let s1 = s\<lparr>requests := requests s @ [NavRequest i]\<rparr> in
        case fetchPokemonId env i of
          Rejected msg \<Rightarrow> (None, s1)
        | Response status body \<Rightarrow>
            if \<not> ok status then (None, s1)
            else (case body of
                    Inl msg \<Rightarrow> (None, s1)
                  | Inr d \<Rightarrow>
                      (Some \<lparr>nav_id = pd_id d, nav_name = pd_name d,
                             displayName = replace_hyphen (pd_name d)\<rparr>, s1)))"

text \<open>The \<open>try\<close> block of \<open>fetchPokemonDataByNameOrId\<close>: fetch, and store on success.\<close>

definition fetchAndStore ::
  "detail_env \<Rightarrow> string \<Rightarrow> bool \<Rightarrow> detail_page \<Rightarrow> PokemonData option \<times> detail_page" where
  "fetchAndStore env cacheKey isPreload s =
     (let s1 = s\<lparr>requests := requests s @ [PokemonRequest cacheKey isPreload]\<rparr> in
      case fetchPokemon env cacheKey of
        Rejected msg \<Rightarrow> (None, s1)
      | Response status body \<Rightarrow>
          if \<not> ok status then (None, s1)
          else (case body of
                  Inl msg \<Rightarrow> (None, s1)
                | Inr fetchedPokemonData \<Rightarrow>
                    (Some fetchedPokemonData,
                     s1\<lparr>pokemonDataCache := (pokemonDataCache s1)
                           (cacheKey \<mapsto> \<lparr>data = fetchedPokemonData,
                                         timestamp = clock env (reads s1)\<rparr>),
                        reads := Suc (reads s1)\<rparr>)))"

definition fetchPokemonDataByNameOrId ::
  "detail_env \<Rightarrow> string \<Rightarrow> bool \<Rightarrow> detail_page \<Rightarrow> PokemonData option \<times> detail_page" where
  "fetchPokemonDataByNameOrId env identifier isPreload s =
     (let cacheKey = toLowerCase identifier in
      case pokemonDataCache s cacheKey of
        None \<Rightarrow> fetchAndStore env cacheKey isPreload s
      | Some cachedEntry \<Rightarrow>
          let now = clock env (reads s); s1 = s\<lparr>reads := Suc (reads s)\<rparr> in
          if now - timestamp cachedEntry < CACHE_EXPIRY_MS then (Some (data cachedEntry), s1)
          else if isPreload then (None, s1)
          else fetchAndStore env cacheKey isPreload s1)"

subsection \<open>The effectiveness table of fetchPageSpecificDetails\<close>

definition times_assign :: "(string \<rightharpoonup> number) \<Rightarrow> string \<Rightarrow> rat \<Rightarrow> (string \<rightharpoonup> number)" where
  "times_assign m k r = m(k \<mapsto> (case m k of Some (Num v) \<Rightarrow> Num (v * r) | _ \<Rightarrow> NaN))"

definition initialEffectivenessMap :: "string \<rightharpoonup> number" where
  "initialEffectivenessMap =
     foldl (\<lambda>m pt. m(toLowerCase (type_name pt) \<mapsto> Num 1)) Map.empty POKEMON_TYPES"

definition applyTypeDetail :: "(string \<rightharpoonup> number) \<Rightarrow> damage_relations \<Rightarrow> (string \<rightharpoonup> number)" where
  "applyTypeDetail m typeDetail =
     (let m1 = foldl (\<lambda>m t. times_assign m (toLowerCase (name t)) 2) m
                 (double_damage_from typeDetail);
          m2 = foldl (\<lambda>m t. times_assign m (toLowerCase (name t)) (1 / 2)) m1
                 (half_damage_from typeDetail)
      in foldl (\<lambda>m t. times_assign m (toLowerCase (name t)) 0) m2
           (no_damage_from typeDetail))"

text \<open>The object \<open>effectivenessMap\<close> as it is before the ability override.\<close>

definition effectivenessMap :: "damage_relations list \<Rightarrow> (string \<rightharpoonup> number)" where
  "effectivenessMap typesData = foldl applyTypeDetail initialEffectivenessMap typesData"

definition hasLevitate :: "PokemonData \<Rightarrow> bool" where
  "hasLevitate baseData =
     list_ex (\<lambda>a. toLowerCase (ability_name a) = ''levitate'') (abilities baseData)"

text \<open>
  \<open>Array.prototype.sort\<close> is stable; with the comparator \<open>b.multiplier - a.multiplier\<close>
  it sorts by descending multiplier. No registry entry is ever \<open>NaN\<close> (every registry key
  starts at 1 and is multiplied by finite constants); \<open>sort_value\<close> gives \<open>NaN\<close> the
  value 0 only to be total.
\<close>

fun sort_value :: "number \<Rightarrow> rat" where
  "sort_value NaN = 0"
| "sort_value (Num v) = v"

definition sortedEffectiveness :: "(string \<rightharpoonup> number) \<Rightarrow> TypeEffectivenessEntry list" where
  "sortedEffectiveness m =
     sort_key (\<lambda>e. - sort_value (multiplier e))
       (map (\<lambda>t. \<lparr>entry_name = type_name t,
                   multiplier = (case m (toLowerCase (type_name t)) of
                                   None \<Rightarrow> Num 1 | Some v \<Rightarrow> v)\<rparr>)
          POKEMON_TYPES)"

definition fetchTypeJson ::
  "(string \<Rightarrow> damage_relations fetched) \<Rightarrow> string \<Rightarrow> string + damage_relations" where
  "fetchTypeJson net typeUrl =
     (case net typeUrl of Rejected msg \<Rightarrow> Inl msg | Response status body \<Rightarrow> body)"

definition details_error :: "string \<Rightarrow> string" where
  "details_error msg = ''Failed to load some details: '' @ msg"

definition fetchPageSpecificDetails ::
  "detail_env \<Rightarrow> PokemonData \<Rightarrow> detail_page \<Rightarrow> detail_page" where
  "fetchPageSpecificDetails env baseData s =
     (case speciesBlock env baseData of
        Some msg \<Rightarrow> s\<lparr>error := Some (details_error msg)\<rparr>
      | None \<Rightarrow>
          let s1 = s\<lparr>requests := requests s
                        @ map (\<lambda>typeInfo. TypeRequest (url (type_ref typeInfo))) (pd_types baseData)\<rparr>
          in
          case promise_all
                 (map (\<lambda>typeInfo. fetchTypeJson (fetchType env) (url (type_ref typeInfo)))
                    (pd_types baseData)) of
            Inl msg \<Rightarrow> s1\<lparr>error := Some (details_error msg)\<rparr>
          | Inr typesData \<Rightarrow>
              let m = effectivenessMap typesData in
              if hasLevitate baseData \<and> m ''ground'' \<noteq> Some (Num 0)
              then s1\<lparr>abilityEffectOnGround := Some ''Immune to Ground due to Levitate.'',
                      typeEffectiveness := Some (sortedEffectiveness (m(''ground'' \<mapsto> Num 0)))\<rparr>
              else s1\<lparr>abilityEffectOnGround := None,
                      typeEffectiveness := Some (sortedEffectiveness m)\<rparr>)"

subsection \<open>loadCurrentPokemonAndPreloadNeighbors\<close>

text \<open>
  One neighbour: its navigation record is fetched, the link is set, and the preload is
  started when the cache has no entry under the neighbour's name. The source does not
  await the preload; here it runs to its end where it is started.
\<close>

definition loadNeighbor ::
  "detail_env \<Rightarrow> int \<Rightarrow> (NavLinkInfo \<Rightarrow> detail_page \<Rightarrow> detail_page) \<Rightarrow> detail_page \<Rightarrow> detail_page" where
  "loadNeighbor env i setLink s =
     (case fetchPokemonNavInfoById env i s of
        (None, s1) \<Rightarrow> s1
      | (Some info, s1) \<Rightarrow>
          let s2 = setLink info s1 in
          if pokemonDataCache s2 (toLowerCase (nav_name info)) = None
          then snd (fetchPokemonDataByNameOrId env (toLowerCase (nav_name info)) True s2)
          else s2)"

definition setPrevPokemonLink :: "NavLinkInfo \<Rightarrow> detail_page \<Rightarrow> detail_page" where
  "setPrevPokemonLink info s = s\<lparr>prevPokemonLink := Some info\<rparr>"

definition setNextPokemonLink :: "NavLinkInfo \<Rightarrow> detail_page \<Rightarrow> detail_page" where
  "setNextPokemonLink info s = s\<lparr>nextPokemonLink := Some info\<rparr>"

definition not_found_error :: "string \<Rightarrow> string" where
  "not_found_error identifier =
     ''Pok'' @ [CHR 0xC3, CHR 0xA9] @ ''mon '' @ [CHR 0x22] @ identifier @ [CHR 0x22]
       @ '' not found or failed to load.''"

definition loadCurrentPokemonAndPreloadNeighbors ::
  "detail_env \<Rightarrow> string \<Rightarrow> detail_page \<Rightarrow> detail_page" where
  "loadCurrentPokemonAndPreloadNeighbors env currentPokemonIdentifier s =
     (if currentPokemonIdentifier = [] then s
      else
        case fetchPokemonDataByNameOrId env (toLowerCase currentPokemonIdentifier) False
               (s\<lparr>isLoading := True, error := None\<rparr>) of
          (None, s1) \<Rightarrow>
            s1\<lparr>error := Some (not_found_error currentPokemonIdentifier), isLoading := False\<rparr>
        | (Some fetchedPokemonData, s1) \<Rightarrow>
            let s2 = fetchPageSpecificDetails env fetchedPokemonData
                       (s1\<lparr>pokemonData := Some fetchedPokemonData\<rparr>);
                s3 = s2\<lparr>prevPokemonLink := None, nextPokemonLink := None\<rparr>;
                s4 = (if pd_id fetchedPokemonData > 1
                      then loadNeighbor env (pd_id fetchedPokemonData - 1) setPrevPokemonLink s3
                      else s3);
                s5 = (if pd_id fetchedPokemonData < MAX_POKEMON_ID_FOR_NAV
                      then loadNeighbor env (pd_id fetchedPokemonData + 1) setNextPokemonLink s4
                      else s4)
            in s5\<lparr>isLoading := False\<rparr>)"

section \<open>The search index (src/contexts/PokedexContext.tsx)\<close>

record MinimalPokemonInfo =
  mp_id :: int
  mp_name :: string
  mp_displayName :: string

text \<open>A \<open>localStorage\<close> value: the object \<open>{timestamp, data}\<close> that is stored as JSON.\<close>

record stored_list =
  stored_timestamp :: int
  stored_data :: "MinimalPokemonInfo list"

definition CACHE_KEY_MINIMAL_LIST :: string where
  "CACHE_KEY_MINIMAL_LIST = ''pokedex_minimal_pokemon_list_v1''"

definition CACHE_DURATION_MS :: int where
  "CACHE_DURATION_MS = 24 * 60 * 60 * 1000"

text \<open>
  The world outside the provider: the clock, and the outcome of the list request with
  its body already turned into the sorted \<open>listWithDetails\<close>.
\<close>

record context_env =
  context_clock :: "nat \<Rightarrow> int"
  fetchList :: "MinimalPokemonInfo list fetched"

record pokedex_context =
  minimalPokemonList :: "MinimalPokemonInfo list"
  isLoadingMinimalList :: bool
  searchError :: "string option"
  localStorage :: "string \<rightharpoonup> stored_list"
  list_requests :: nat
  context_reads :: nat

definition fetchNewList :: "context_env \<Rightarrow> pokedex_context \<Rightarrow> pokedex_context" where
  "fetchNewList env s =
     (let s1 = s\<lparr>list_requests := Suc (list_requests s)\<rparr> in
      case fetchList env of
        Rejected msg \<Rightarrow> s1\<lparr>searchError := Some msg, isLoadingMinimalList := False\<rparr>
      | Response status body \<Rightarrow>
          if \<not> ok status
          then s1\<lparr>searchError := Some (''Failed to fetch minimal Pok'' @ [CHR 0xC3, CHR 0xA9]
                                          @ ''mon list for search.''),
                  isLoadingMinimalList := False\<rparr>
          else (case body of
                  Inl msg \<Rightarrow> s1\<lparr>searchError := Some msg, isLoadingMinimalList := False\<rparr>
                | Inr listWithDetails \<Rightarrow>
                    s1\<lparr>minimalPokemonList := listWithDetails,
                       localStorage := (localStorage s1)
                         (CACHE_KEY_MINIMAL_LIST \<mapsto>
                            \<lparr>stored_timestamp = context_clock env (context_reads s1),
                             stored_data = listWithDetails\<rparr>),
                       context_reads := Suc (context_reads s1),
                       isLoadingMinimalList := False\<rparr>))"

definition fetchMinimalPokemonList :: "context_env \<Rightarrow> pokedex_context \<Rightarrow> pokedex_context" where
  "fetchMinimalPokemonList env s =
     (let s0 = s\<lparr>isLoadingMinimalList := True, searchError := None\<rparr> in
      case localStorage s0 CACHE_KEY_MINIMAL_LIST of
        None \<Rightarrow> fetchNewList env s0
      | Some cachedData \<Rightarrow>
          let now = context_clock env (context_reads s0);
              s1 = s0\<lparr>context_reads := Suc (context_reads s0)\<rparr>
          in
          if now - stored_timestamp cachedData < CACHE_DURATION_MS
          then s1\<lparr>minimalPokemonList := stored_data cachedData, isLoadingMinimalList := False\<rparr>
          else fetchNewList env
                 (s1\<lparr>localStorage := (localStorage s1)(CACHE_KEY_MINIMAL_LIST := None)\<rparr>))"

section \<open>The quiz page: state, new game and scoring\<close>

text \<open>
  The React state of the quiz page, with the list of the ids requested so far.
  \<open>selectedTypes\<close> is a JavaScript \<open>Set\<close>.
\<close>

record guesser_page =
  currentPokemon :: "Pokemon option"
  loading :: bool
  game_error :: "string option"
  correctEffectiveness :: "(string \<times> rat) list"
  selectedTypes :: "string fset"
  typeCheckResults :: "(string \<times> TypeCheckResult) list"
  showResults :: bool
  timeTaken :: rat
  startTime :: "int option"
  gameWon :: bool
  requested :: "int list"

text \<open>
  What one pass of the loop of \<open>startNewGame\<close> meets: the value of \<open>Math.random()\<close> and the
  answers of the API.
\<close>

record attempt_env =
  random :: rat
  fetchRandomPokemon :: "int \<Rightarrow> Pokemon fetched"
  fetchDefendingType :: "string \<Rightarrow> damage_relations fetched"

datatype attempt_result = Done guesser_page | Again nat guesser_page

text \<open>
  The body of the \<open>while\<close> loop. \<open>Done\<close> is the \<open>return\<close>; \<open>Again\<close> carries the counter
  after \<open>attempts++\<close>, reached by a \<open>continue\<close> or through the \<open>catch\<close>.
\<close>

definition spriteUrl :: "Pokemon \<Rightarrow> string option" where
  "spriteUrl d =
     (case official_artwork d of
        None \<Rightarrow> front_default d
      | Some u \<Rightarrow> if u = [] then front_default d else Some u)"

definition randomId :: "attempt_env \<Rightarrow> int" where
  "randomId env = \<lfloor>random env * of_int MAX_POKEMON_ID\<rfloor> + 1"

definition attempt :: "attempt_env \<Rightarrow> nat \<Rightarrow> guesser_page \<Rightarrow> attempt_result" where
  "attempt env attempts s =
     (let s1 = s\<lparr>requested := requested s @ [randomId env]\<rparr> in
      case fetchRandomPokemon env (randomId env) of
        Rejected msg \<Rightarrow> Again (attempts + 1) s1
      | Response status body \<Rightarrow>
          if \<not> ok status then
            (if status = 404 then Again (attempts + 1) s1 else Again (attempts + 1) s1)
          else (case body of
                  Inl msg \<Rightarrow> Again (attempts + 1) s1
                | Inr d \<Rightarrow>
                    if spriteUrl d = None \<or> spriteUrl d = Some [] then Again (attempts + 1) s1
                    else
                      let d' = d\<lparr>front_default := spriteUrl d\<rparr>;
                          s2 = s1\<lparr>currentPokemon := Some d'\<rparr>
                      in
                      case calculateEffectiveness (fetchDefendingType env) d' of
                        Inl e \<Rightarrow> Again (attempts + 1) s2
                      | Inr m \<Rightarrow> Done (s2\<lparr>correctEffectiveness := m, loading := False\<rparr>)))"

definition attempts_error :: string where
  "attempts_error =
     ''Could not load a Pok'' @ [CHR 0xC3, CHR 0xA9]
       @ ''mon after several attempts. Please try again later.''"

function startNewGame_loop ::
  "(nat \<Rightarrow> attempt_env) \<Rightarrow> nat \<Rightarrow> nat \<Rightarrow> guesser_page \<Rightarrow> guesser_page" where
  "startNewGame_loop envs i attempts s =
     (if attempts < 5 then
        (case attempt (envs i) attempts s of
           Done s' \<Rightarrow> s'
         | Again attempts' s' \<Rightarrow> startNewGame_loop envs (Suc i) attempts' s')
      else s\<lparr>game_error := Some attempts_error, loading := False\<rparr>)"
  by pat_completeness auto
termination
  by (relation "measure (\<lambda>(envs, i, attempts, s). 5 - attempts)")
     (auto simp: attempt_def Let_def split: fetched.splits sum.splits if_splits)

declare startNewGame_loop.simps [simp del]

definition startNewGame :: "int \<Rightarrow> (nat \<Rightarrow> attempt_env) \<Rightarrow> guesser_page \<Rightarrow> guesser_page" where
  "startNewGame now envs s =
     startNewGame_loop envs 0 0
       (s\<lparr>loading := True, game_error := None, selectedTypes := {||}, typeCheckResults := [],
          showResults := False, gameWon := False, startTime := Some now\<rparr>)"

subsection \<open>handleCheckAnswers\<close>

text \<open>\<open>correctEffectiveness.get(type.name) || 1\<close>: a missing entry and the falsy 0 give 1.\<close>

definition effectiveness :: "(string \<times> rat) list \<Rightarrow> string \<Rightarrow> rat" where
  "effectiveness eff n = (case map_of eff n of None \<Rightarrow> 1 | Some v \<Rightarrow> if v = 0 then 1 else v)"

definition isSuperEffective :: "(string \<times> rat) list \<Rightarrow> string \<Rightarrow> bool" where
  "isSuperEffective eff n = (effectiveness eff n \<ge> 2)"

record check_vars =
  results :: "(string \<times> TypeCheckResult) list"
  allCorrectlySelected :: bool
  anySuperEffectiveMissed :: bool

definition check_type ::
  "(string \<times> rat) list \<Rightarrow> string fset \<Rightarrow> check_vars \<Rightarrow> TypeData \<Rightarrow> check_vars" where
  "check_type eff sel v t =
     (if type_name t |\<in>| sel then
        (if isSuperEffective eff (type_name t)
         then v\<lparr>results := AList.update (type_name t) CORRECT (results v)\<rparr>
         else v\<lparr>results := AList.update (type_name t) INCORRECT (results v),
                allCorrectlySelected := False\<rparr>)
      else
        (if isSuperEffective eff (type_name t)
         then v\<lparr>results := AList.update (type_name t) MISSED (results v),
                allCorrectlySelected := False, anySuperEffectiveMissed := True\<rparr>
         else v\<lparr>results := AList.update (type_name t) NONE (results v)\<rparr>))"

definition check_types :: "(string \<times> rat) list \<Rightarrow> string fset \<Rightarrow> TypeData list \<Rightarrow> check_vars" where
  "check_types eff sel ts =
     foldl (check_type eff sel)
       \<lparr>results = [], allCorrectlySelected = True, anySuperEffectiveMissed = False\<rparr> ts"

definition hasAnySuperEffectiveForCurrentPokemon :: "(string \<times> rat) list \<Rightarrow> bool" where
  "hasAnySuperEffectiveForCurrentPokemon eff =
     foldl (\<lambda>b (k, multiplier). if multiplier \<ge> 2 then True else b) False eff"

definition handleCheckAnswers :: "int \<Rightarrow> guesser_page \<Rightarrow> guesser_page" where
  "handleCheckAnswers now s =
     (let s1 = (case startTime s of
                  None \<Rightarrow> s
                | Some t0 \<Rightarrow> if t0 = 0 then s else s\<lparr>timeTaken := of_int (now - t0) / 1000\<rparr>);
          v = check_types (correctEffectiveness s) (selectedTypes s) POKEMON_TYPES;
          won = (if allCorrectlySelected v \<and> \<not> anySuperEffectiveMissed v
                 then (if hasAnySuperEffectiveForCurrentPokemon (correctEffectiveness s)
                       then fcard (selectedTypes s) > 0 else True)
                 else False)
      in s1\<lparr>gameWon := won, typeCheckResults := results v, showResults := True\<rparr>)"

section \<open>Notions of the specification\<close>

text \<open>The multiplier a table row shows for a type name.\<close>

definition table_multiplier :: "TypeEffectivenessEntry list \<Rightarrow> string \<Rightarrow> number option" where
  "table_multiplier table n = map_of (map (\<lambda>e. (entry_name e, multiplier e)) table) n"

text \<open>
  An effectiveness table of the quiz with its 18 entries: one entry for each registry
  name and no other.
\<close>

definition valid_table :: "(string \<times> rat) list \<Rightarrow> bool" where
  "valid_table eff =
     (distinct (map fst eff) \<and> set (map fst eff) = set (map type_name POKEMON_TYPES))"

text \<open>A type is super effective when its entry in the table is at least 2.\<close>

definition super_effective :: "(string \<times> rat) list \<Rightarrow> string \<Rightarrow> bool" where
  "super_effective eff n = (case map_of eff n of None \<Rightarrow> False | Some v \<Rightarrow> 2 \<le> v)"



text \<open>The state of the quiz page when it is mounted (the initial values of its hooks).\<close>

definition initial_guesser_page :: guesser_page where
  "initial_guesser_page =
     \<lparr>currentPokemon = None, loading = True, game_error = None, correctEffectiveness = [],
      selectedTypes = {||}, typeCheckResults = [], showResults = False, timeTaken = 0,
      startTime = None, gameWon = False, requested = []\<rparr>"

text \<open>Whether a pass of the loop of \<open>startNewGame\<close> reaches its \<open>return\<close>.\<close>

definition attempt_returns :: "attempt_env \<Rightarrow> bool" where
  "attempt_returns env =
     (case attempt env 0 initial_guesser_page of Done s' \<Rightarrow> True | Again a s' \<Rightarrow> False)"

text \<open>The state of the detail page when it is mounted, with an empty cache.\<close>

definition initial_detail_page :: detail_page where
  "initial_detail_page =
     \<lparr>pokemonData = None, typeEffectiveness = None, isLoading = True, error = None,
      prevPokemonLink = None, nextPokemonLink = None, abilityEffectOnGround = None,
      pokemonDataCache = Map.empty, requests = [], reads = 0\<rparr>"

section \<open>Sample data\<close>

text \<open>Rows of the type chart as the API serves them, and creatures to run the pages on.\<close>

definition sample_type :: "string \<Rightarrow> PokemonType" where
  "sample_type n = \<lparr>name = n, url = ''https://pokeapi.co/api/v2/type/'' @ n @ ''/''\<rparr>"

definition flying_relations :: damage_relations where
  "flying_relations =
     \<lparr>double_damage_from = map sample_type [''rock'', ''electric'', ''ice''],
      half_damage_from = map sample_type [''fighting'', ''bug'', ''grass''],
      no_damage_from = map sample_type [''ground'']\<rparr>"

definition grass_relations :: damage_relations where
  "grass_relations =
     \<lparr>double_damage_from = map sample_type [''flying'', ''poison'', ''bug'', ''fire'', ''ice''],
      half_damage_from = map sample_type [''ground'', ''water'', ''grass'', ''electric''],
      no_damage_from = []\<rparr>"

definition poison_relations :: damage_relations where
  "poison_relations =
     \<lparr>double_damage_from = map sample_type [''ground'', ''psychic''],
      half_damage_from = map sample_type [''fighting'', ''poison'', ''bug'', ''grass'', ''fairy''],
      no_damage_from = []\<rparr>"

definition levitate :: AbilityInfo where
  "levitate = \<lparr>ability_name = ''levitate'',
                ability_url = ''https://pokeapi.co/api/v2/ability/26/'', is_hidden = False\<rparr>"

definition koffing :: PokemonData where
  "koffing =
     \<lparr>pd_id = 109, pd_name = ''koffing'',
      pd_types = [\<lparr>slot = 1, type_ref = sample_type ''poison''\<rparr>],
      abilities = [levitate],
      species_url = ''https://pokeapi.co/api/v2/pokemon-species/109/''\<rparr>"

definition levitating_flyer :: PokemonData where
  "levitating_flyer =
     \<lparr>pd_id = 2000, pd_name = ''levitating-flyer'',
      pd_types = [\<lparr>slot = 1, type_ref = sample_type ''flying''\<rparr>],
      abilities = [levitate],
      species_url = ''https://pokeapi.co/api/v2/pokemon-species/2000/''\<rparr>"

definition sample_fetchType :: "string \<Rightarrow> damage_relations fetched" where
  "sample_fetchType u =
     (if u = url (sample_type ''flying'') then Response 200 (Inr flying_relations)
      else if u = url (sample_type ''poison'') then Response 200 (Inr poison_relations)
      else if u = url (sample_type ''grass'') then Response 200 (Inr grass_relations)
      else Response 404 (Inl ''Unexpected token N in JSON at position 0''))"

definition sample_env :: detail_env where
  "sample_env =
     \<lparr>clock = (\<lambda>n. 1000 * int n),
      fetchPokemon = (\<lambda>k. if k = ''koffing'' then Response 200 (Inr koffing)
                           else Response 404 (Inl ''Unexpected token N in JSON at position 0'')),
      fetchPokemonId = (\<lambda>i. if i = 109 then Response 200 (Inr koffing)
                             else Rejected ''Failed to fetch''),
      speciesBlock = (\<lambda>d. None),
      fetchType = sample_fetchType\<rparr>"

definition sample_quiz :: guesser_page where
  "sample_quiz =
     initial_guesser_page
       \<lparr>correctEffectiveness := calculatedEffectivenessMap [flying_relations],
        selectedTypes := {|''Rock'', ''Electric'', ''Ice''|},
        startTime := Some 1000\<rparr>"

definition bulbasaur :: Pokemon where
  "bulbasaur =
     \<lparr>pokemon_id = 1, pokemon_name = ''bulbasaur'',
      front_default = Some ''https://raw.githubusercontent.com/PokeAPI/sprites/master/sprites/pokemon/1.png'',
      official_artwork = None,
      types = [\<lparr>slot = 1, type_ref = sample_type ''grass''\<rparr>,
               \<lparr>slot = 2, type_ref = sample_type ''poison''\<rparr>]\<rparr>"

definition failing_attempt :: attempt_env where
  "failing_attempt =
     \<lparr>random = 2 / 5,
      fetchRandomPokemon = (\<lambda>i. Rejected ''Failed to fetch''),
      fetchDefendingType = sample_fetchType\<rparr>"

definition bulbasaur_attempt :: attempt_env where
  "bulbasaur_attempt =
     \<lparr>random = 0,
      fetchRandomPokemon = (\<lambda>i. if i = 1 then Response 200 (Inr bulbasaur)
                                 else Response 404 (Inl ''Unexpected token N in JSON at position 0'')),
      fetchDefendingType = sample_fetchType\<rparr>"

text \<open>The detail page with koffing stored in its cache at time 0.\<close>

definition cached_page :: detail_page where
  "cached_page =
     initial_detail_page
       \<lparr>pokemonDataCache := [''koffing'' \<mapsto> \<lparr>data = koffing, timestamp = 0\<rparr>]\<rparr>"

definition sample_list :: "MinimalPokemonInfo list" where
  "sample_list = [\<lparr>mp_id = 1, mp_name = ''bulbasaur'', mp_displayName = ''Bulbasaur''\<rparr>]"

definition sample_context_env :: context_env where
  "sample_context_env =
     \<lparr>context_clock = (\<lambda>n. 1000 * int n), fetchList = Response 200 (Inr sample_list)\<rparr>"

definition initial_context :: pokedex_context where
  "initial_context =
     \<lparr>minimalPokemonList = [], isLoadingMinimalList = True, searchError = None,
      localStorage = Map.empty, list_requests = 0, context_reads = 0\<rparr>"

text \<open>An API that knows koffing and, by id only, its successor weezing.\<close>

definition weezing :: PokemonData where
  "weezing =
     \<lparr>pd_id = 110, pd_name = ''weezing'',
      pd_types = [\<lparr>slot = 1, type_ref = sample_type ''poison''\<rparr>],
      abilities = [levitate],
      species_url = ''https://pokeapi.co/api/v2/pokemon-species/110/''\<rparr>"

definition neighbor_env :: detail_env where
  "neighbor_env =
     sample_env\<lparr>fetchPokemonId := (\<lambda>i. if i = 110 then Response 200 (Inr weezing)
                                        else Rejected ''Failed to fetch'')\<rparr>"

section \<open>Lemmas\<close>

lemma registry_names:
  "map type_name POKEMON_TYPES =
     [''Normal'', ''Fire'', ''Water'', ''Electric'', ''Grass'', ''Ice'', ''Fighting'',
      ''Poison'', ''Ground'', ''Flying'', ''Psychic'', ''Bug'', ''Rock'', ''Ghost'',
      ''Dragon'', ''Steel'', ''Dark'', ''Fairy'']"
  by (simp add: POKEMON_TYPES_def)

lemma registry_lower_names:
  "map (\<lambda>t. toLowerCase (type_name t)) POKEMON_TYPES =
     [''normal'', ''fire'', ''water'', ''electric'', ''grass'', ''ice'', ''fighting'',
      ''poison'', ''ground'', ''flying'', ''psychic'', ''bug'', ''rock'', ''ghost'',
      ''dragon'', ''steel'', ''dark'', ''fairy'']"
  by code_simp

lemma registry_length: "length POKEMON_TYPES = 18"
  by (simp add: POKEMON_TYPES_def)

lemma registry_distinct: "distinct (map type_name POKEMON_TYPES)"
  unfolding registry_names by simp

lemma registry_lower_distinct: "distinct (map (\<lambda>t. toLowerCase (type_name t)) POKEMON_TYPES)"
  unfolding registry_lower_names by simp





lemma foldl_update_fresh:
  "distinct (map f xs) \<Longrightarrow> f ` set xs \<inter> fst ` set acc = {} \<Longrightarrow>
   foldl (\<lambda>m a. AList.update (f a) (g a) m) acc xs = acc @ map (\<lambda>a. (f a, g a)) xs"
proof (induction xs arbitrary: acc)
  case Nil
  then show ?case by simp
next
  case (Cons x xs)
  have fresh: "f x \<notin> fst ` set acc"
    using Cons.prems(2) by auto
  then have upd: "AList.update (f x) (g x) acc = acc @ [(f x, g x)]"
    by (induction acc) auto
  have "f ` set xs \<inter> fst ` set (acc @ [(f x, g x)]) = {}"
    using Cons.prems by auto
  with Cons.IH [of "acc @ [(f x, g x)]"] Cons.prems(1) upd show ?case
    by simp
qed

lemma calculatedEffectivenessMap_eq:
  "calculatedEffectivenessMap ds = map (\<lambda>a. (type_name a, finalMultiplier ds a)) POKEMON_TYPES"
  unfolding calculatedEffectivenessMap_def
  using foldl_update_fresh [of type_name POKEMON_TYPES "[]" "finalMultiplier ds"] registry_distinct
  by simp





lemma times_assign_apply:
  "times_assign m k r a =
     (if a = k then Some (case m k of Some (Num v) \<Rightarrow> Num (v * r) | _ \<Rightarrow> NaN) else m a)"
  by (simp add: times_assign_def)

lemma foldl_times_assign:
  "m a = Some (Num v) \<Longrightarrow>
   foldl (\<lambda>m t. times_assign m (f t) r) m ts a = Some (Num (v * r ^ count_list (map f ts) a))"
proof (induction ts arbitrary: m v)
  case Nil
  then show ?case by simp
next
  case (Cons t ts)
  show ?case
  proof (cases "f t = a")
    case True
    with Cons.prems have "times_assign m (f t) r a = Some (Num (v * r))"
      by (simp add: times_assign_apply)
    with Cons.IH [of "times_assign m (f t) r" "v * r"] True show ?thesis
      by (simp add: mult.assoc)
  next
    case False
    with Cons.prems have "times_assign m (f t) r a = Some (Num v)"
      by (simp add: times_assign_apply)
    with Cons.IH [of "times_assign m (f t) r" v] False show ?thesis
      by simp
  qed
qed

lemma applyTypeDetail_apply:
  assumes "m a = Some (Num v)"
  shows "applyTypeDetail m d a =
           Some (Num (v * 2 ^ count_list (map (\<lambda>t. toLowerCase (name t)) (double_damage_from d)) a
                        * (1 / 2) ^ count_list (map (\<lambda>t. toLowerCase (name t)) (half_damage_from d)) a
                        * 0 ^ count_list (map (\<lambda>t. toLowerCase (name t)) (no_damage_from d)) a))"
  unfolding applyTypeDetail_def Let_def
  by (rule foldl_times_assign, rule foldl_times_assign, rule foldl_times_assign, rule assms)

lemma count_list_distinct:
  "distinct (map f xs) \<Longrightarrow> count_list (map f xs) a = (if a \<in> f ` set xs then 1 else 0)"
  by (induction xs) auto

lemma disjoint_relations_factor:
  assumes "disjoint_relations d"
  shows "(2::rat) ^ count_list (map (\<lambda>t. toLowerCase (name t)) (double_damage_from d)) a
           * (1 / 2) ^ count_list (map (\<lambda>t. toLowerCase (name t)) (half_damage_from d)) a
           * 0 ^ count_list (map (\<lambda>t. toLowerCase (name t)) (no_damage_from d)) a
         = relation_factor d a"
proof -
  have low: "map (\<lambda>t. toLowerCase (name t)) (double_damage_from d) = map name (double_damage_from d)"
    "map (\<lambda>t. toLowerCase (name t)) (half_damage_from d) = map name (half_damage_from d)"
    "map (\<lambda>t. toLowerCase (name t)) (no_damage_from d) = map name (no_damage_from d)"
    using assms by (auto simp: disjoint_relations_def list_all_iff)
  have dist: "distinct (map name (double_damage_from d))" "distinct (map name (half_damage_from d))"
    "distinct (map name (no_damage_from d))"
    using assms by (auto simp: disjoint_relations_def)
  have disj: "name ` set (double_damage_from d) \<inter> name ` set (half_damage_from d) = {}"
    "name ` set (double_damage_from d) \<inter> name ` set (no_damage_from d) = {}"
    "name ` set (half_damage_from d) \<inter> name ` set (no_damage_from d) = {}"
    using assms by (auto simp: disjoint_relations_def)
  show ?thesis
    unfolding low count_list_distinct [OF dist(1)] count_list_distinct [OF dist(2)]
      count_list_distinct [OF dist(3)] relation_factor_def
    using disj by auto
qed

lemma foldl_applyTypeDetail:
  "list_all disjoint_relations ds \<Longrightarrow> m a = Some (Num v) \<Longrightarrow>
   foldl applyTypeDetail m ds a = Some (Num (v * (\<Prod>d\<leftarrow>ds. relation_factor d a)))"
proof (induction ds arbitrary: m v)
  case Nil
  then show ?case by simp
next
  case (Cons d ds)
  from Cons.prems have "applyTypeDetail m d a = Some (Num (v * relation_factor d a))"
    using applyTypeDetail_apply [of m a v d] disjoint_relations_factor [of d a]
    by (simp add: mult.assoc)
  with Cons.IH [of "applyTypeDetail m d" "v * relation_factor d a"] Cons.prems(1) show ?case
    by (simp add: mult.assoc)
qed

lemma foldl_upd_const:
  "foldl (\<lambda>m pt. m(f pt \<mapsto> c)) m0 xs k = (if k \<in> f ` set xs then Some c else m0 k)"
  by (induction xs arbitrary: m0) auto

lemma initialEffectivenessMap_registry:
  "T \<in> set POKEMON_TYPES \<Longrightarrow> initialEffectivenessMap (toLowerCase (type_name T)) = Some (Num 1)"
  by (simp add: initialEffectivenessMap_def foldl_upd_const)

lemma effectivenessMap_registry:
  "list_all disjoint_relations ds \<Longrightarrow> T \<in> set POKEMON_TYPES \<Longrightarrow>
   effectivenessMap ds (toLowerCase (type_name T)) =
     Some (Num (\<Prod>d\<leftarrow>ds. relation_factor d (toLowerCase (type_name T))))"
  unfolding effectivenessMap_def
  using foldl_applyTypeDetail [of ds initialEffectivenessMap "toLowerCase (type_name T)" 1]
    initialEffectivenessMap_registry [of T]
  by simp

section \<open>The effectiveness computation\<close>




lemma sample_disjoint:
  "disjoint_relations grass_relations" "disjoint_relations poison_relations"
  "disjoint_relations flying_relations"
  by (simp_all add: disjoint_relations_def grass_relations_def poison_relations_def
      flying_relations_def sample_type_def toLowerCase_def lower_char_def)


section \<open>The scoring of the quiz\<close>


lemma isSuperEffective_iff: "isSuperEffective eff n \<longleftrightarrow> super_effective eff n"
  by (simp add: isSuperEffective_def effectiveness_def super_effective_def split: option.splits)

lemma check_type_results:
  "map_of (results (check_type eff sel v t)) n =
     (if n = type_name t
      then Some (if n |\<in>| sel then (if super_effective eff n then CORRECT else INCORRECT)
                 else (if super_effective eff n then MISSED else NONE))
      else map_of (results v) n)"
  by (simp add: check_type_def isSuperEffective_iff AList.update_conv')

lemma check_type_keys:
  "map fst (results (check_type eff sel v t)) =
     (if type_name t \<in> set (map fst (results v)) then map fst (results v)
      else map fst (results v) @ [type_name t])"
  by (simp add: check_type_def AList.update_keys)

lemma check_type_all:
  "allCorrectlySelected (check_type eff sel v t) \<longleftrightarrow>
     allCorrectlySelected v \<and> (type_name t |\<in>| sel \<longleftrightarrow> super_effective eff (type_name t))"
  by (simp add: check_type_def isSuperEffective_iff)

lemma check_type_missed:
  "anySuperEffectiveMissed (check_type eff sel v t) \<longleftrightarrow>
     anySuperEffectiveMissed v \<or> (type_name t |\<notin>| sel \<and> super_effective eff (type_name t))"
  by (simp add: check_type_def isSuperEffective_iff)

lemma foldl_check_results:
  "map_of (results (foldl (check_type eff sel) v ts)) n =
     (if n \<in> type_name ` set ts
      then Some (if n |\<in>| sel then (if super_effective eff n then CORRECT else INCORRECT)
                 else (if super_effective eff n then MISSED else NONE))
      else map_of (results v) n)"
  by (induction ts arbitrary: v) (auto simp: check_type_results)

lemma foldl_check_keys:
  "distinct (map type_name ts) \<Longrightarrow> type_name ` set ts \<inter> set (map fst (results v)) = {} \<Longrightarrow>
   map fst (results (foldl (check_type eff sel) v ts)) = map fst (results v) @ map type_name ts"
proof (induction ts arbitrary: v)
  case Nil
  then show ?case by simp
next
  case (Cons t ts)
  have k: "map fst (results (check_type eff sel v t)) = map fst (results v) @ [type_name t]"
    using Cons.prems(2) by (auto simp: check_type_keys)
  have "type_name ` set ts \<inter> set (map fst (results (check_type eff sel v t))) = {}"
    using Cons.prems unfolding k by auto
  with Cons.IH [of "check_type eff sel v t"] Cons.prems(1) k show ?case
    by simp
qed

lemma foldl_check_all:
  "allCorrectlySelected (foldl (check_type eff sel) v ts) \<longleftrightarrow>
     allCorrectlySelected v \<and> (\<forall>t\<in>set ts. type_name t |\<in>| sel \<longleftrightarrow> super_effective eff (type_name t))"
  by (induction ts arbitrary: v) (auto simp: check_type_all)

lemma foldl_check_missed:
  "anySuperEffectiveMissed (foldl (check_type eff sel) v ts) \<longleftrightarrow>
     anySuperEffectiveMissed v \<or> (\<exists>t\<in>set ts. type_name t |\<notin>| sel \<and> super_effective eff (type_name t))"
  by (induction ts arbitrary: v) (auto simp: check_type_missed)

lemma foldl_any:
  "foldl (\<lambda>b (k, multiplier). if multiplier \<ge> (2::rat) then True else b) b0 eff \<longleftrightarrow>
     b0 \<or> (\<exists>(k, v)\<in>set eff. 2 \<le> v)"
  by (induction eff arbitrary: b0) auto

lemma hasAny_iff:
  "hasAnySuperEffectiveForCurrentPokemon eff \<longleftrightarrow> (\<exists>(k, v)\<in>set eff. 2 \<le> v)"
  by (simp add: hasAnySuperEffectiveForCurrentPokemon_def foldl_any)

lemma hasAny_valid:
  assumes "valid_table eff"
  shows "hasAnySuperEffectiveForCurrentPokemon eff \<longleftrightarrow>
           (\<exists>t\<in>set POKEMON_TYPES. super_effective eff (type_name t))"
proof -
  from assms have d: "distinct (map fst eff)" and k: "fst ` set eff = type_name ` set POKEMON_TYPES"
    by (auto simp: valid_table_def)
  have se: "super_effective eff n \<longleftrightarrow> (\<exists>v. (n, v) \<in> set eff \<and> 2 \<le> v)" for n
  proof -
    have "super_effective eff n \<longleftrightarrow> (\<exists>v. map_of eff n = Some v \<and> 2 \<le> v)"
      by (simp add: super_effective_def split: option.splits)
    then show ?thesis
      unfolding map_of_eq_Some_iff [OF d] .
  qed
  have "(\<exists>(k, v)\<in>set eff. 2 \<le> v) \<longleftrightarrow> (\<exists>n\<in>fst ` set eff. super_effective eff n)"
    unfolding se by force
  then show ?thesis
    unfolding hasAny_iff k by auto
qed

lemma gameWon_eq:
  "gameWon (handleCheckAnswers now s) \<longleftrightarrow>
     (\<forall>t\<in>set POKEMON_TYPES.
        type_name t |\<in>| selectedTypes s \<longleftrightarrow> super_effective (correctEffectiveness s) (type_name t))
     \<and> (hasAnySuperEffectiveForCurrentPokemon (correctEffectiveness s) \<longrightarrow> selectedTypes s \<noteq> {||})"
proof -
  have c: "0 < fcard S \<longleftrightarrow> S \<noteq> {||}" for S :: "string fset"
    by (metis fcard_fempty fcard_seteq le_zero_eq fempty_fsubsetI neq0_conv)
  show ?thesis
    by (auto simp: handleCheckAnswers_def Let_def check_types_def foldl_check_all foldl_check_missed c
        split: option.splits)
qed

lemma typeCheckResults_eq:
  "typeCheckResults (handleCheckAnswers now s) =
     results (check_types (correctEffectiveness s) (selectedTypes s) POKEMON_TYPES)"
  by (simp add: handleCheckAnswers_def Let_def split: option.splits)

text \<open>
  Claim C3. For an 18-entry table and a selection of registry types, the quiz declares
  a win exactly when no selected type is below 2, no type at or above 2 is left out and,
  if some type reaches 2, something is selected; that is, exactly when the selection is
  the set of the types whose multiplier is at least 2.
\<close>

theorem quiz_win:
  assumes "valid_table (correctEffectiveness s)"
      and "fset (selectedTypes s) \<subseteq> set (map type_name POKEMON_TYPES)"
  shows "(gameWon (handleCheckAnswers now s) \<longleftrightarrow>
            (\<forall>n. n |\<in>| selectedTypes s \<longrightarrow> super_effective (correctEffectiveness s) n)
          \<and> (\<forall>n\<in>set (map type_name POKEMON_TYPES).
                super_effective (correctEffectiveness s) n \<longrightarrow> n |\<in>| selectedTypes s)
          \<and> ((\<exists>n\<in>set (map type_name POKEMON_TYPES). super_effective (correctEffectiveness s) n)
                \<longrightarrow> selectedTypes s \<noteq> {||}))
       \<and> (gameWon (handleCheckAnswers now s) \<longleftrightarrow>
            fset (selectedTypes s)
              = {n \<in> set (map type_name POKEMON_TYPES). super_effective (correctEffectiveness s) n})"
proof -
  let ?eff = "correctEffectiveness s" and ?sel = "selectedTypes s"
  let ?names = "set (map type_name POKEMON_TYPES)"
  have won: "gameWon (handleCheckAnswers now s) \<longleftrightarrow>
      (\<forall>n\<in>?names. n |\<in>| ?sel \<longleftrightarrow> super_effective ?eff n)
      \<and> ((\<exists>n\<in>?names. super_effective ?eff n) \<longrightarrow> ?sel \<noteq> {||})"
    unfolding gameWon_eq hasAny_valid [OF assms(1)] by auto
  have first: "gameWon (handleCheckAnswers now s) \<longleftrightarrow>
            (\<forall>n. n |\<in>| ?sel \<longrightarrow> super_effective ?eff n)
          \<and> (\<forall>n\<in>?names. super_effective ?eff n \<longrightarrow> n |\<in>| ?sel)
          \<and> ((\<exists>n\<in>?names. super_effective ?eff n) \<longrightarrow> ?sel \<noteq> {||})"
    unfolding won using assms(2) by auto
  have second: "gameWon (handleCheckAnswers now s) \<longleftrightarrow>
            fset ?sel = {n \<in> ?names. super_effective ?eff n}"
    unfolding won using assms(2) by auto
  from first second show ?thesis by blast
qed

lemma typeCheckResults_keys:
  "map fst (typeCheckResults (handleCheckAnswers now s)) = map type_name POKEMON_TYPES"
  unfolding typeCheckResults_eq check_types_def
  using foldl_check_keys [OF registry_distinct, of
      "\<lparr>results = [], allCorrectlySelected = True, anySuperEffectiveMissed = False\<rparr>"]
  by simp

lemma typeCheckResults_label:
  "T \<in> set POKEMON_TYPES \<Longrightarrow>
   map_of (typeCheckResults (handleCheckAnswers now s)) (type_name T) =
     Some (if type_name T |\<in>| selectedTypes s
           then (if super_effective (correctEffectiveness s) (type_name T) then CORRECT else INCORRECT)
           else (if super_effective (correctEffectiveness s) (type_name T) then MISSED else NONE))"
  unfolding typeCheckResults_eq check_types_def foldl_check_results by simp

text \<open>
  Claim C4. The classification gives every one of the 18 registry types one label,
  whatever the selection: CORRECT when selected with a multiplier of at least 2,
  INCORRECT when selected below 2, MISSED when not selected at 2 or more (and NONE
  otherwise). The threshold is 2: a multiplier of 4 is super effective, one of 1 or
  less is not.
\<close>

theorem quiz_classification:
  assumes "T \<in> set POKEMON_TYPES"
      and "map_of (correctEffectiveness s) (type_name T) = Some m"
  shows "map fst (typeCheckResults (handleCheckAnswers now s)) = map type_name POKEMON_TYPES
       \<and> (\<exists>l. map_of (typeCheckResults (handleCheckAnswers now s)) (type_name T) = Some l
            \<and> (l = CORRECT \<longleftrightarrow> type_name T |\<in>| selectedTypes s \<and> 2 \<le> m)
            \<and> (l = INCORRECT \<longleftrightarrow> type_name T |\<in>| selectedTypes s \<and> m < 2)
            \<and> (l = MISSED \<longleftrightarrow> type_name T |\<notin>| selectedTypes s \<and> 2 \<le> m)
            \<and> (l = NONE \<longleftrightarrow> type_name T |\<notin>| selectedTypes s \<and> m < 2))
       \<and> (isSuperEffective (correctEffectiveness s) (type_name T) \<longleftrightarrow> 2 \<le> m)
       \<and> (m = 4 \<longrightarrow> isSuperEffective (correctEffectiveness s) (type_name T))
       \<and> (m \<le> 1 \<longrightarrow> \<not> isSuperEffective (correctEffectiveness s) (type_name T))"
proof -
  have se: "super_effective (correctEffectiveness s) (type_name T) \<longleftrightarrow> 2 \<le> m"
    using assms(2) by (simp add: super_effective_def)
  show ?thesis
    unfolding typeCheckResults_keys typeCheckResults_label [OF assms(1)] isSuperEffective_iff se
    by auto
qed

text \<open>
  Claim C10. The lookup of the scoring cannot fail: a registry type with no entry in the
  map, and one whose entry is 0, are both read as 1 by \<open>|| 1\<close>, are not super
  effective, and are labelled INCORRECT when selected and NONE otherwise; every registry
  type gets its label whatever the map holds.
\<close>

theorem quiz_lookup_default:
  assumes "T \<in> set POKEMON_TYPES"
      and "map_of (correctEffectiveness s) (type_name T) = None
           \<or> map_of (correctEffectiveness s) (type_name T) = Some 0"
  shows "effectiveness (correctEffectiveness s) (type_name T) = 1
       \<and> \<not> isSuperEffective (correctEffectiveness s) (type_name T)
       \<and> map_of (typeCheckResults (handleCheckAnswers now s)) (type_name T)
           = Some (if type_name T |\<in>| selectedTypes s then INCORRECT else NONE)
       \<and> map fst (typeCheckResults (handleCheckAnswers now s)) = map type_name POKEMON_TYPES"
proof -
  have e: "effectiveness (correctEffectiveness s) (type_name T) = 1"
    using assms(2) by (auto simp: effectiveness_def)
  then have se: "\<not> super_effective (correctEffectiveness s) (type_name T)"
    using isSuperEffective_iff [of "correctEffectiveness s" "type_name T"]
    by (simp add: isSuperEffective_def)
  show ?thesis
    unfolding typeCheckResults_keys typeCheckResults_label [OF assms(1)] isSuperEffective_iff
    using e se by simp
qed

lemma flying_table:
  "calculatedEffectivenessMap [flying_relations] =
     [(''Normal'', 1), (''Fire'', 1), (''Water'', 1), (''Electric'', 2), (''Grass'', 1 / 2),
      (''Ice'', 2), (''Fighting'', 1 / 2), (''Poison'', 1), (''Ground'', 0), (''Flying'', 1),
      (''Psychic'', 1), (''Bug'', 1 / 2), (''Rock'', 2), (''Ghost'', 1), (''Dragon'', 1),
      (''Steel'', 1), (''Dark'', 1), (''Fairy'', 1)]"
  by code_simp

lemma valid_table_calculated: "valid_table (calculatedEffectivenessMap ds)"
  using registry_distinct
  by (simp add: valid_table_def calculatedEffectivenessMap_eq comp_def)

lemma sample_quiz_simps:
  "correctEffectiveness sample_quiz = calculatedEffectivenessMap [flying_relations]"
  "selectedTypes sample_quiz = {|''Rock'', ''Electric'', ''Ice''|}"
  by (simp_all add: sample_quiz_def initial_guesser_page_def)



lemma super_flying:
  "filter (super_effective (calculatedEffectivenessMap [flying_relations])) (map type_name POKEMON_TYPES)
     = [''Electric'', ''Ice'', ''Rock'']"
  unfolding flying_table registry_names
  by (simp add: super_effective_def)

lemma sample_quiz_super: "fset (selectedTypes sample_quiz)
          = {n \<in> set (map type_name POKEMON_TYPES). super_effective (correctEffectiveness sample_quiz) n}"
proof -
  have "{n \<in> set (map type_name POKEMON_TYPES). super_effective (correctEffectiveness sample_quiz) n}
        = set (filter (super_effective (correctEffectiveness sample_quiz)) (map type_name POKEMON_TYPES))"
    by simp
  also have "\<dots> = {''Electric'', ''Ice'', ''Rock''}"
    unfolding sample_quiz_simps super_flying by simp
  finally show ?thesis
    unfolding sample_quiz_simps by auto
qed

theorem quiz_win_witness:
  "valid_table (correctEffectiveness sample_quiz)
   \<and> fset (selectedTypes sample_quiz) \<subseteq> set (map type_name POKEMON_TYPES)
   \<and> gameWon (handleCheckAnswers 5000 sample_quiz)"
proof -
  have v: "valid_table (correctEffectiveness sample_quiz)"
    by (simp add: sample_quiz_simps valid_table_calculated)
  have sub: "fset (selectedTypes sample_quiz) \<subseteq> set (map type_name POKEMON_TYPES)"
    by (simp add: sample_quiz_simps registry_names)
  have "gameWon (handleCheckAnswers 5000 sample_quiz)"
    using conjunct2 [OF quiz_win [OF v sub, of 5000]] sample_quiz_super by (rule iffD2)
  with v sub show ?thesis
    by (intro conjI)
qed

theorem quiz_classification_witness:
  "\<lparr>type_id = ''type-rock'', type_name = ''Rock'', color = ''#B6A136'', textColor = Some ''#000000''\<rparr>
     \<in> set POKEMON_TYPES
   \<and> map_of (correctEffectiveness sample_quiz) ''Rock'' = Some 2
   \<and> map_of (typeCheckResults (handleCheckAnswers 5000 sample_quiz)) ''Rock'' = Some CORRECT"
proof -
  let ?T = "\<lparr>type_id = ''type-rock'', type_name = ''Rock'', color = ''#B6A136'',
              textColor = Some ''#000000''\<rparr>"
  have T: "?T \<in> set POKEMON_TYPES"
    by (simp add: POKEMON_TYPES_def)
  have m: "map_of (correctEffectiveness sample_quiz) (type_name ?T) = Some 2"
    by (simp add: sample_quiz_simps flying_table)
  have sel: "type_name ?T |\<in>| selectedTypes sample_quiz"
    by (simp add: sample_quiz_simps)
  from quiz_classification [OF T m, of 5000] sel T m show ?thesis
    by auto
qed

theorem quiz_lookup_default_witness:
  "\<lparr>type_id = ''type-ground'', type_name = ''Ground'', color = ''#E2BF65'', textColor = Some ''#000000''\<rparr>
     \<in> set POKEMON_TYPES
   \<and> map_of (correctEffectiveness sample_quiz) ''Ground'' = Some 0
   \<and> effectiveness (correctEffectiveness sample_quiz) ''Ground'' = 1
   \<and> map_of (typeCheckResults (handleCheckAnswers 5000 sample_quiz)) ''Ground'' = Some NONE"
proof -
  let ?T = "\<lparr>type_id = ''type-ground'', type_name = ''Ground'', color = ''#E2BF65'',
              textColor = Some ''#000000''\<rparr>"
  have T: "?T \<in> set POKEMON_TYPES"
    by (simp add: POKEMON_TYPES_def)
  have m: "map_of (correctEffectiveness sample_quiz) (type_name ?T) = Some 0"
    by (simp add: sample_quiz_simps flying_table)
  have sel: "type_name ?T |\<notin>| selectedTypes sample_quiz"
    by (simp add: sample_quiz_simps)
  from quiz_lookup_default [OF T disjI2 [OF m], of 5000] sel T m show ?thesis
    by simp
qed


section \<open>Starting a new game\<close>

lemma upt_shift: "[i..<i + Suc n] = i # [Suc i..<Suc i + n]"
  by (simp add: upt_conv_Cons)

lemma attempt_shape:
  "(attempt_returns env \<and>
      (\<exists>d m. attempt env a s =
         Done (s\<lparr>requested := requested s @ [randomId env], currentPokemon := Some d,
                 correctEffectiveness := m, loading := False\<rparr>)))
   \<or> (\<not> attempt_returns env \<and>
      (\<exists>cp. attempt env a s =
         Again (a + 1) (s\<lparr>requested := requested s @ [randomId env], currentPokemon := cp\<rparr>)))"
proof (cases "fetchRandomPokemon env (randomId env)")
  case (Rejected msg)
  then have "\<not> attempt_returns env"
    and "attempt env a s = Again (a + 1) (s\<lparr>requested := requested s @ [randomId env],
           currentPokemon := currentPokemon s\<rparr>)"
    by (simp_all add: attempt_def attempt_returns_def Let_def)
  then show ?thesis by blast
next
  case (Response status body)
  show ?thesis
  proof (cases "ok status")
    case False
    with Response have "\<not> attempt_returns env"
      and "attempt env a s = Again (a + 1) (s\<lparr>requested := requested s @ [randomId env],
             currentPokemon := currentPokemon s\<rparr>)"
      by (simp_all add: attempt_def attempt_returns_def Let_def)
    then show ?thesis by blast
  next
    case st: True
    show ?thesis
    proof (cases body)
      case (Inl msg)
      with Response st have "\<not> attempt_returns env"
        and "attempt env a s = Again (a + 1) (s\<lparr>requested := requested s @ [randomId env],
               currentPokemon := currentPokemon s\<rparr>)"
        by (simp_all add: attempt_def attempt_returns_def Let_def)
      then show ?thesis by blast
    next
      case (Inr d)
      show ?thesis
      proof (cases "spriteUrl d = None \<or> spriteUrl d = Some []")
        case True
        with Response st Inr have "\<not> attempt_returns env"
          and "attempt env a s = Again (a + 1) (s\<lparr>requested := requested s @ [randomId env],
                 currentPokemon := currentPokemon s\<rparr>)"
          by (simp_all add: attempt_def attempt_returns_def Let_def)
        then show ?thesis by blast
      next
        case False
        then obtain u where sp: "spriteUrl d = Some u" "u \<noteq> []"
          by (cases "spriteUrl d") auto
        show ?thesis
        proof (cases "calculateEffectiveness (fetchDefendingType env)
                        (d\<lparr>front_default := spriteUrl d\<rparr>)")
          case (Inl e)
          with Response st Inr sp have "\<not> attempt_returns env"
            and "attempt env a s = Again (a + 1) (s\<lparr>requested := requested s @ [randomId env],
                   currentPokemon := Some (d\<lparr>front_default := spriteUrl d\<rparr>)\<rparr>)"
            by (simp_all add: attempt_def attempt_returns_def Let_def)
          then show ?thesis by blast
        next
          case m: (Inr m)
          with Response st Inr sp have "attempt_returns env"
            and "attempt env a s = Done (s\<lparr>requested := requested s @ [randomId env],
                   currentPokemon := Some (d\<lparr>front_default := spriteUrl d\<rparr>),
                   correctEffectiveness := m, loading := False\<rparr>)"
            by (simp_all add: attempt_def attempt_returns_def Let_def)
          then show ?thesis by blast
        qed
      qed
    qed
  qed
qed

lemma attempt_returns_Done:
  assumes "attempt_returns env"
  obtains s' where "attempt env a s = Done s'" "game_error s' = game_error s" "loading s' = False"
    "requested s' = requested s @ [randomId env]" "currentPokemon s' \<noteq> None"
  using attempt_shape [of env a s] assms by auto

lemma attempt_fails_Again:
  assumes "\<not> attempt_returns env"
  obtains s' where "attempt env a s = Again (a + 1) s'" "game_error s' = game_error s"
    "requested s' = requested s @ [randomId env]"
  using attempt_shape [of env a s] assms by auto

lemma loop_exhausted:
  "n = 5 - attempts \<Longrightarrow> \<forall>j<n. \<not> attempt_returns (envs (i + j)) \<Longrightarrow>
   game_error (startNewGame_loop envs i attempts s) = Some attempts_error
   \<and> loading (startNewGame_loop envs i attempts s) = False
   \<and> requested (startNewGame_loop envs i attempts s)
       = requested s @ map (\<lambda>j. randomId (envs j)) [i..<i + n]"
proof (induction n arbitrary: i attempts s)
  case 0
  then have "\<not> attempts < 5" by simp
  then show ?case
    by (subst (1 2 3) startNewGame_loop.simps) simp
next
  case (Suc n)
  then have lt: "attempts < 5" and n: "n = 5 - (attempts + 1)" by simp_all
  from Suc.prems(2) have "\<not> attempt_returns (envs i)"
    by (metis add.right_neutral zero_less_Suc)
  then obtain s' where a: "attempt (envs i) attempts s = Again (attempts + 1) s'"
    and e: "game_error s' = game_error s" and r: "requested s' = requested s @ [randomId (envs i)]"
    by (rule attempt_fails_Again)
  have "\<forall>j<n. \<not> attempt_returns (envs (Suc i + j))"
    using Suc.prems(2) by (metis Suc_less_eq add_Suc_right add_Suc)
  from Suc.IH [OF n this, of s'] have ih:
    "game_error (startNewGame_loop envs (Suc i) (attempts + 1) s') = Some attempts_error"
    "loading (startNewGame_loop envs (Suc i) (attempts + 1) s') = False"
    "requested (startNewGame_loop envs (Suc i) (attempts + 1) s')
       = requested s' @ map (\<lambda>j. randomId (envs j)) [Suc i..<Suc i + n]"
    by simp_all
  have step: "startNewGame_loop envs i attempts s = startNewGame_loop envs (Suc i) (attempts + 1) s'"
    using lt a by (subst startNewGame_loop.simps) simp
  show ?case
    unfolding step ih r upt_shift using Suc.prems(1) by simp
qed

lemma loop_returns:
  "k < 5 - attempts \<Longrightarrow> attempt_returns (envs (i + k)) \<Longrightarrow>
   \<forall>j<k. \<not> attempt_returns (envs (i + j)) \<Longrightarrow>
   game_error (startNewGame_loop envs i attempts s) = game_error s
   \<and> loading (startNewGame_loop envs i attempts s) = False
   \<and> currentPokemon (startNewGame_loop envs i attempts s) \<noteq> None
   \<and> requested (startNewGame_loop envs i attempts s)
       = requested s @ map (\<lambda>j. randomId (envs j)) [i..<i + k + 1]"
proof (induction k arbitrary: i attempts s)
  case 0
  then have lt: "attempts < 5" and "attempt_returns (envs i)" by simp_all
  then obtain s' where a: "attempt (envs i) attempts s = Done s'"
    and p: "game_error s' = game_error s" "loading s' = False"
      "requested s' = requested s @ [randomId (envs i)]" "currentPokemon s' \<noteq> None"
    by (metis attempt_returns_Done)
  have step: "startNewGame_loop envs i attempts s = s'"
    using lt a by (subst startNewGame_loop.simps) simp
  show ?case
    unfolding step using p by simp
next
  case (Suc k)
  then have lt: "attempts < 5" and k: "k < 5 - (attempts + 1)" by simp_all
  from Suc.prems(3) have "\<not> attempt_returns (envs i)"
    by (metis add.right_neutral zero_less_Suc)
  then obtain s' where a: "attempt (envs i) attempts s = Again (attempts + 1) s'"
    and e: "game_error s' = game_error s" and r: "requested s' = requested s @ [randomId (envs i)]"
    by (rule attempt_fails_Again)
  have ret: "attempt_returns (envs (Suc i + k))"
    using Suc.prems(2) by simp
  have "\<forall>j<k. \<not> attempt_returns (envs (Suc i + j))"
    using Suc.prems(3) by (metis Suc_less_eq add_Suc_right add_Suc)
  from Suc.IH [OF k ret this, of s'] have ih:
    "game_error (startNewGame_loop envs (Suc i) (attempts + 1) s') = game_error s'"
    "loading (startNewGame_loop envs (Suc i) (attempts + 1) s') = False"
    "currentPokemon (startNewGame_loop envs (Suc i) (attempts + 1) s') \<noteq> None"
    "requested (startNewGame_loop envs (Suc i) (attempts + 1) s')
       = requested s' @ map (\<lambda>j. randomId (envs j)) [Suc i..<Suc i + k + 1]"
    by simp_all
  have step: "startNewGame_loop envs i attempts s = startNewGame_loop envs (Suc i) (attempts + 1) s'"
    using lt a by (subst startNewGame_loop.simps) simp
  have "[i..<i + Suc k + 1] = i # [Suc i..<Suc i + k + 1]"
    using upt_shift [of i "Suc k"] by simp
  then show ?case
    unfolding step using ih e r by simp
qed


lemma attempt_returns_iff:
  "attempt_returns env \<longleftrightarrow>
     (\<exists>status d m. fetchRandomPokemon env (randomId env) = Response status (Inr d) \<and> ok status
        \<and> spriteUrl d \<noteq> None \<and> spriteUrl d \<noteq> Some []
        \<and> calculateEffectiveness (fetchDefendingType env) (d\<lparr>front_default := spriteUrl d\<rparr>) = Inr m)"
proof (cases "fetchRandomPokemon env (randomId env)")
  case (Rejected msg)
  then show ?thesis
    by (simp add: attempt_def attempt_returns_def Let_def)
next
  case (Response status body)
  show ?thesis
  proof (cases body)
    case (Inl msg)
    with Response show ?thesis
      by (simp add: attempt_def attempt_returns_def Let_def)
  next
    case (Inr d)
    show ?thesis
    proof (cases "spriteUrl d")
      case None
      with Response Inr show ?thesis
        by (simp add: attempt_def attempt_returns_def Let_def)
    next
      case (Some u)
      with Response Inr show ?thesis
        by (cases "calculateEffectiveness (fetchDefendingType env) (d\<lparr>front_default := Some u\<rparr>)")
          (simp_all add: attempt_def attempt_returns_def Let_def)
    qed
  qed
qed

lemma startNewGame_returns:
  assumes "k < 5" "attempt_returns (envs k)" "\<forall>j<k. \<not> attempt_returns (envs j)"
  shows "game_error (startNewGame now envs s) = None"
    and "loading (startNewGame now envs s) = False"
    and "currentPokemon (startNewGame now envs s) \<noteq> None"
    and "requested (startNewGame now envs s) = requested s @ map (\<lambda>j. randomId (envs j)) [0..<k + 1]"
  using loop_returns [of k 0 envs 0
      "s\<lparr>loading := True, game_error := None, selectedTypes := {||}, typeCheckResults := [],
          showResults := False, gameWon := False, startTime := Some now\<rparr>"] assms
  by (simp_all add: startNewGame_def)

lemma startNewGame_exhausted:
  assumes "\<forall>j<5. \<not> attempt_returns (envs j)"
  shows "game_error (startNewGame now envs s) = Some attempts_error"
    and "loading (startNewGame now envs s) = False"
    and "requested (startNewGame now envs s) = requested s @ map (\<lambda>j. randomId (envs j)) [0..<5]"
  using loop_exhausted [of 5 0 envs 0
      "s\<lparr>loading := True, game_error := None, selectedTypes := {||}, typeCheckResults := [],
          showResults := False, gameWon := False, startTime := Some now\<rparr>"] assms
  by (simp_all add: startNewGame_def)

lemma startNewGame_bound:
  "loading (startNewGame now envs s) = False
   \<and> length (requested (startNewGame now envs s)) \<le> length (requested s) + 5"
proof (cases "\<exists>i<5. attempt_returns (envs i)")
  case True
  then obtain i where i: "i < 5" "attempt_returns (envs i)" by blast
  define k where "k = (LEAST i. attempt_returns (envs i))"
  have k: "attempt_returns (envs k)" "k \<le> i" "\<forall>j<k. \<not> attempt_returns (envs j)"
    unfolding k_def using i(2) by (auto intro: LeastI Least_le dest: not_less_Least)
  with i(1) have "k < 5" by simp
  from startNewGame_returns(2,4) [OF this k(1,3), of now s] \<open>k < 5\<close> show ?thesis
    by simp
next
  case False
  then have "\<forall>j<5. \<not> attempt_returns (envs j)" by blast
  from startNewGame_exhausted(2,3) [OF this, of now s] show ?thesis
    by simp
qed

text \<open>
  Claim C8. \<open>startNewGame\<close> always ends with the loading flag off, after at most five
  requests. When a pass within the first five reaches its \<open>return\<close>, no error is shown
  and the creature is set, after as many requests as passes were run; when none does,
  exactly five requests were sent and the terminal error is shown. A pass reaches its
  \<open>return\<close> exactly when the request resolves with a success status, the body decodes,
  a sprite is there and the effectiveness computation does not throw.
\<close>

theorem bounded_retries:
  "loading (startNewGame now envs s) = False
   \<and> length (requested (startNewGame now envs s)) \<le> length (requested s) + 5
   \<and> (\<forall>k<5. attempt_returns (envs k) \<and> (\<forall>j<k. \<not> attempt_returns (envs j)) \<longrightarrow>
         game_error (startNewGame now envs s) = None
         \<and> currentPokemon (startNewGame now envs s) \<noteq> None
         \<and> requested (startNewGame now envs s)
             = requested s @ map (\<lambda>j. randomId (envs j)) [0..<k + 1])
   \<and> ((\<forall>j<5. \<not> attempt_returns (envs j)) \<longrightarrow>
         game_error (startNewGame now envs s) = Some attempts_error
         \<and> requested (startNewGame now envs s)
             = requested s @ map (\<lambda>j. randomId (envs j)) [0..<5])
   \<and> (\<forall>env. attempt_returns env \<longleftrightarrow>
         (\<exists>status d m. fetchRandomPokemon env (randomId env) = Response status (Inr d) \<and> ok status
            \<and> spriteUrl d \<noteq> None \<and> spriteUrl d \<noteq> Some []
            \<and> calculateEffectiveness (fetchDefendingType env) (d\<lparr>front_default := spriteUrl d\<rparr>)
                = Inr m))"
  using startNewGame_bound [of now envs s] startNewGame_returns(1,3,4) [of _ envs now s]
    startNewGame_exhausted(1,3) [of envs now s] attempt_returns_iff
  by blast

lemma failing_attempt_fails: "\<not> attempt_returns failing_attempt"
  by (simp add: attempt_returns_iff failing_attempt_def)

lemma bulbasaur_attempt_returns: "attempt_returns bulbasaur_attempt"
  by (simp add: attempt_returns_iff bulbasaur_attempt_def randomId_def bulbasaur_def spriteUrl_def
      ok_def calculateEffectiveness_def fetchTypeDetails_def sample_fetchType_def sample_type_def)

theorem bounded_retries_witness:
  "game_error (startNewGame 1000 (\<lambda>i. failing_attempt) initial_guesser_page) = Some attempts_error
   \<and> length (requested (startNewGame 1000 (\<lambda>i. failing_attempt) initial_guesser_page)) = 5
   \<and> game_error (startNewGame 1000 (\<lambda>i. if i < 2 then failing_attempt else bulbasaur_attempt)
                   initial_guesser_page) = None
   \<and> requested (startNewGame 1000 (\<lambda>i. if i < 2 then failing_attempt else bulbasaur_attempt)
                   initial_guesser_page) = [363, 363, 1]"
proof -
  have r: "randomId failing_attempt = 363" "randomId bulbasaur_attempt = 1"
    by (simp_all add: randomId_def failing_attempt_def bulbasaur_attempt_def MAX_POKEMON_ID_def)
  have i: "requested initial_guesser_page = []"
    by (simp add: initial_guesser_page_def)
  have u: "[0..<2 + 1] = [0, 1, 2]" "[0..<5] = [0, 1, 2, 3, 4]"
    by (simp_all add: upt_rec)
  from bounded_retries [of 1000 "\<lambda>i. failing_attempt" initial_guesser_page]
  have a: "game_error (startNewGame 1000 (\<lambda>i. failing_attempt) initial_guesser_page) = Some attempts_error"
    "requested (startNewGame 1000 (\<lambda>i. failing_attempt) initial_guesser_page)
       = requested initial_guesser_page @ map (\<lambda>j. randomId failing_attempt) [0..<5]"
    using failing_attempt_fails by simp_all
  have prem: "attempt_returns (if (2::nat) < 2 then failing_attempt else bulbasaur_attempt)
      \<and> (\<forall>j<2::nat. \<not> attempt_returns (if j < 2 then failing_attempt else bulbasaur_attempt))"
    by (simp add: failing_attempt_fails bulbasaur_attempt_returns)
  from bounded_retries [of 1000 "\<lambda>i. if i < 2 then failing_attempt else bulbasaur_attempt"
      initial_guesser_page]
  have "\<forall>k<5. attempt_returns (if k < 2 then failing_attempt else bulbasaur_attempt)
          \<and> (\<forall>j<k. \<not> attempt_returns (if j < 2 then failing_attempt else bulbasaur_attempt)) \<longrightarrow>
        game_error (startNewGame 1000 (\<lambda>i. if i < 2 then failing_attempt else bulbasaur_attempt)
                   initial_guesser_page) = None
        \<and> currentPokemon (startNewGame 1000 (\<lambda>i. if i < 2 then failing_attempt else bulbasaur_attempt)
                   initial_guesser_page) \<noteq> None
        \<and> requested (startNewGame 1000 (\<lambda>i. if i < 2 then failing_attempt else bulbasaur_attempt)
             initial_guesser_page)
             = requested initial_guesser_page
               @ map (\<lambda>j. randomId (if j < 2 then failing_attempt else bulbasaur_attempt)) [0..<k + 1]"
    by blast
  from this [rule_format, of 2, OF _ prem]
  have b: "game_error (startNewGame 1000 (\<lambda>i. if i < 2 then failing_attempt else bulbasaur_attempt)
                   initial_guesser_page) = None"
    "requested (startNewGame 1000 (\<lambda>i. if i < 2 then failing_attempt else bulbasaur_attempt)
             initial_guesser_page)
       = requested initial_guesser_page
         @ map (\<lambda>j. randomId (if j < 2 then failing_attempt else bulbasaur_attempt)) [0..<2 + 1]"
    by simp_all
  show ?thesis
    unfolding a b i u by (simp add: r)
qed


section \<open>The table of the detail page\<close>


lemma times_assign_keeps: "a \<in> dom m \<Longrightarrow> a \<in> dom (times_assign m k r)"
  by (simp add: times_assign_def)

lemma foldl_times_assign_keeps:
  "a \<in> dom m \<Longrightarrow> a \<in> dom (foldl (\<lambda>m t. times_assign m (f t) r) m ts)"
proof (induction ts arbitrary: m)
  case Nil
  then show ?case by simp
next
  case (Cons t ts)
  from Cons.IH [OF times_assign_keeps [OF Cons.prems]] show ?case
    by simp
qed

lemma applyTypeDetail_keeps: "a \<in> dom m \<Longrightarrow> a \<in> dom (applyTypeDetail m d)"
  unfolding applyTypeDetail_def Let_def
  by (intro foldl_times_assign_keeps)

lemma foldl_applyTypeDetail_keeps: "a \<in> dom m \<Longrightarrow> a \<in> dom (foldl applyTypeDetail m ds)"
proof (induction ds arbitrary: m)
  case Nil
  then show ?case by simp
next
  case (Cons d ds)
  from Cons.IH [OF applyTypeDetail_keeps [OF Cons.prems]] show ?case
    by simp
qed

lemma effectivenessMap_defined:
  "T \<in> set POKEMON_TYPES \<Longrightarrow> toLowerCase (type_name T) \<in> dom (effectivenessMap ds)"
  unfolding effectivenessMap_def
  by (rule foldl_applyTypeDetail_keeps) (simp add: initialEffectivenessMap_registry domI)

lemma table_multiplier_sorted:
  assumes "T \<in> set POKEMON_TYPES"
  shows "table_multiplier (sortedEffectiveness m) (type_name T) =
           Some (case m (toLowerCase (type_name T)) of None \<Rightarrow> Num 1 | Some v \<Rightarrow> v)"
proof -
  let ?row = "\<lambda>t. \<lparr>entry_name = type_name t,
                    multiplier = (case m (toLowerCase (type_name t)) of None \<Rightarrow> Num 1 | Some v \<Rightarrow> v)\<rparr>"
  let ?xs = "map ?row POKEMON_TYPES"
  let ?key = "\<lambda>e. - sort_value (multiplier e)"
  have names: "map entry_name ?xs = map type_name POKEMON_TYPES"
    by (simp add: comp_def)
  have "distinct (map entry_name ?xs)"
    unfolding names by (rule registry_distinct)
  then have "distinct ?xs" and "inj_on entry_name (set ?xs)"
    by (simp_all only: distinct_map)
  then have "distinct (map entry_name (sort_key ?key ?xs))"
    by (simp only: distinct_map distinct_sort set_sort)
  then have d: "distinct (map fst (map (\<lambda>e. (entry_name e, multiplier e)) (sort_key ?key ?xs)))"
    by (simp add: comp_def)
  have "?row T \<in> set (sort_key ?key ?xs)"
    using assms by (simp only: set_sort) simp
  then have "(type_name T, case m (toLowerCase (type_name T)) of None \<Rightarrow> Num 1 | Some v \<Rightarrow> v)
        \<in> set (map (\<lambda>e. (entry_name e, multiplier e)) (sort_key ?key ?xs))"
    by force
  with map_of_eq_Some_iff [OF d] show ?thesis
    by (simp add: table_multiplier_def sortedEffectiveness_def)
qed

lemma lower_Ground: "toLowerCase ''Ground'' = ''ground''"
  by code_simp

lemma Ground_registry:
  "\<lparr>type_id = ''type-ground'', type_name = ''Ground'', color = ''#E2BF65'',
     textColor = Some ''#000000''\<rparr> \<in> set POKEMON_TYPES"
  by (simp add: POKEMON_TYPES_def)

lemma table_multiplier_Ground:
  "table_multiplier (sortedEffectiveness m) ''Ground'' =
     Some (case m ''ground'' of None \<Rightarrow> Num 1 | Some v \<Rightarrow> v)"
  using table_multiplier_sorted [OF Ground_registry, of m] by (simp add: lower_Ground)

lemma effectivenessMap_ground: "\<exists>v. effectivenessMap ds ''ground'' = Some v"
  using effectivenessMap_defined [OF Ground_registry, of ds] by (auto simp: lower_Ground)

lemma fetchPageSpecificDetails_table:
  assumes "speciesBlock env baseData = None"
      and "promise_all (map (\<lambda>typeInfo. fetchTypeJson (fetchType env) (url (type_ref typeInfo)))
             (pd_types baseData)) = Inr typesData"
  shows "fetchPageSpecificDetails env baseData s =
     (let s1 = s\<lparr>requests := requests s
                   @ map (\<lambda>typeInfo. TypeRequest (url (type_ref typeInfo))) (pd_types baseData)\<rparr>;
          m = effectivenessMap typesData
      in if hasLevitate baseData \<and> m ''ground'' \<noteq> Some (Num 0)
         then s1\<lparr>abilityEffectOnGround := Some ''Immune to Ground due to Levitate.'',
                 typeEffectiveness := Some (sortedEffectiveness (m(''ground'' \<mapsto> Num 0)))\<rparr>
         else s1\<lparr>abilityEffectOnGround := None,
                 typeEffectiveness := Some (sortedEffectiveness m)\<rparr>)"
  using assms by (simp add: fetchPageSpecificDetails_def)

text \<open>
  Claim C2, as the page has it. When the type records are fetched, the table of a
  creature with the ability levitate shows 0 for Ground, and the annotation is set
  exactly when the multiplier of ground after the combination of the defending types is
  not 0 already; without the ability the Ground row is the combined multiplier and there
  is no annotation.
\<close>

theorem levitate_override:
  assumes "speciesBlock env baseData = None"
      and "promise_all (map (\<lambda>typeInfo. fetchTypeJson (fetchType env) (url (type_ref typeInfo)))
             (pd_types baseData)) = Inr typesData"
  shows "\<exists>table. typeEffectiveness (fetchPageSpecificDetails env baseData s) = Some table
       \<and> (hasLevitate baseData \<longrightarrow>
            table_multiplier table ''Ground'' = Some (Num 0)
            \<and> abilityEffectOnGround (fetchPageSpecificDetails env baseData s)
                = (if effectivenessMap typesData ''ground'' = Some (Num 0) then None
                   else Some ''Immune to Ground due to Levitate.''))
       \<and> (\<not> hasLevitate baseData \<longrightarrow>
            table_multiplier table ''Ground'' = effectivenessMap typesData ''ground''
            \<and> abilityEffectOnGround (fetchPageSpecificDetails env baseData s) = None)"
proof -
  obtain v where v: "effectivenessMap typesData ''ground'' = Some v"
    using effectivenessMap_ground by blast
  show ?thesis
    unfolding fetchPageSpecificDetails_table [OF assms] Let_def
    by (simp add: table_multiplier_Ground v)
qed


lemma lower_levitate: "toLowerCase ''levitate'' = ''levitate''"
  by code_simp

lemma sample_hasLevitate: "hasLevitate koffing" "hasLevitate levitating_flyer"
  by (simp_all add: hasLevitate_def koffing_def levitating_flyer_def levitate_def lower_levitate)

lemma sample_species: "speciesBlock sample_env d = None"
  by (simp add: sample_env_def)

lemma sample_types_fetched:
  "promise_all (map (\<lambda>typeInfo. fetchTypeJson (fetchType sample_env) (url (type_ref typeInfo)))
     (pd_types koffing)) = Inr [poison_relations]"
  "promise_all (map (\<lambda>typeInfo. fetchTypeJson (fetchType sample_env) (url (type_ref typeInfo)))
     (pd_types levitating_flyer)) = Inr [flying_relations]"
  by (simp_all add: koffing_def levitating_flyer_def sample_env_def sample_fetchType_def
      fetchTypeJson_def sample_type_def)

lemma sample_ground:
  "effectivenessMap [poison_relations] ''ground'' = Some (Num 2)"
  "effectivenessMap [flying_relations] ''ground'' = Some (Num 0)"
  using effectivenessMap_registry [OF _ Ground_registry, of "[poison_relations]"]
    effectivenessMap_registry [OF _ Ground_registry, of "[flying_relations]"]
    sample_disjoint
  by (simp_all add: lower_Ground relation_factor_def poison_relations_def flying_relations_def
      sample_type_def)

text \<open>
  A creature of type flying with levitate: ground is 0 by the type alone, the guard
  \<open>effectivenessMap['ground'] !== 0\<close> fails and no annotation is set.
\<close>

theorem levitate_flying_counterexample:
  "hasLevitate levitating_flyer
   \<and> table_multiplier
        (the (typeEffectiveness (fetchPageSpecificDetails sample_env levitating_flyer initial_detail_page)))
        ''Ground'' = Some (Num 0)
   \<and> abilityEffectOnGround (fetchPageSpecificDetails sample_env levitating_flyer initial_detail_page)
        = None"
  unfolding fetchPageSpecificDetails_table [OF sample_species sample_types_fetched(2)] Let_def
  by (simp add: sample_hasLevitate sample_ground table_multiplier_Ground)

theorem levitate_override_witness:
  "speciesBlock sample_env koffing = None
   \<and> promise_all (map (\<lambda>typeInfo. fetchTypeJson (fetchType sample_env) (url (type_ref typeInfo)))
        (pd_types koffing)) = Inr [poison_relations]
   \<and> hasLevitate koffing
   \<and> effectivenessMap [poison_relations] ''ground'' = Some (Num 2)
   \<and> table_multiplier
        (the (typeEffectiveness (fetchPageSpecificDetails sample_env koffing initial_detail_page)))
        ''Ground'' = Some (Num 0)
   \<and> abilityEffectOnGround (fetchPageSpecificDetails sample_env koffing initial_detail_page)
        = Some ''Immune to Ground due to Levitate.''"
  using levitate_override [OF sample_species sample_types_fetched(1), of initial_detail_page]
    sample_species [of koffing] sample_types_fetched(1) sample_hasLevitate(1) sample_ground(1)
  by auto








section \<open>The caches\<close>

lemma fetchAndStore_success:
  assumes "fetchPokemon env k = Response status (Inr d)" "ok status"
  shows "fetchAndStore env k p s =
     (Some d,
      s\<lparr>requests := requests s @ [PokemonRequest k p],
         pokemonDataCache := (pokemonDataCache s)(k \<mapsto> \<lparr>data = d, timestamp = clock env (reads s)\<rparr>),
         reads := Suc (reads s)\<rparr>)"
  using assms by (simp add: fetchAndStore_def)

lemma fetchAndStore_shape:
  "(\<exists>status d. fetchPokemon env k = Response status (Inr d) \<and> ok status)
   \<or> fetchAndStore env k p s = (None, s\<lparr>requests := requests s @ [PokemonRequest k p]\<rparr>)"
proof (cases "fetchPokemon env k")
  case (Rejected msg)
  then show ?thesis
    by (simp add: fetchAndStore_def)
next
  case (Response status body)
  then show ?thesis
    by (cases body; cases "ok status") (simp_all add: fetchAndStore_def)
qed

lemma fetchAndStore_frame:
  "requests (snd (fetchAndStore env k p s)) = requests s @ [PokemonRequest k p]"
  "error (snd (fetchAndStore env k p s)) = error s"
  "k' \<noteq> k \<Longrightarrow> pokemonDataCache (snd (fetchAndStore env k p s)) k' = pokemonDataCache s k'"
  "pokemonDataCache s k' \<noteq> None \<Longrightarrow> pokemonDataCache (snd (fetchAndStore env k p s)) k' \<noteq> None"
  using fetchAndStore_shape [of env k p s]
  by (auto simp: fetchAndStore_success)

lemma lookup_absent:
  "pokemonDataCache s (toLowerCase identifier) = None \<Longrightarrow>
   fetchPokemonDataByNameOrId env identifier p s = fetchAndStore env (toLowerCase identifier) p s"
  by (simp add: fetchPokemonDataByNameOrId_def)

lemma lookup_fresh:
  "pokemonDataCache s (toLowerCase identifier) = Some e \<Longrightarrow>
   clock env (reads s) - timestamp e < CACHE_EXPIRY_MS \<Longrightarrow>
   fetchPokemonDataByNameOrId env identifier p s = (Some (data e), s\<lparr>reads := Suc (reads s)\<rparr>)"
  by (simp add: fetchPokemonDataByNameOrId_def)

lemma lookup_expired_preload:
  "pokemonDataCache s (toLowerCase identifier) = Some e \<Longrightarrow>
   \<not> clock env (reads s) - timestamp e < CACHE_EXPIRY_MS \<Longrightarrow>
   fetchPokemonDataByNameOrId env identifier True s = (None, s\<lparr>reads := Suc (reads s)\<rparr>)"
  by (simp add: fetchPokemonDataByNameOrId_def)

lemma lookup_expired:
  "pokemonDataCache s (toLowerCase identifier) = Some e \<Longrightarrow>
   \<not> clock env (reads s) - timestamp e < CACHE_EXPIRY_MS \<Longrightarrow>
   fetchPokemonDataByNameOrId env identifier False s
     = fetchAndStore env (toLowerCase identifier) False (s\<lparr>reads := Suc (reads s)\<rparr>)"
  by (simp add: fetchPokemonDataByNameOrId_def)





lemma lower_koffing: "toLowerCase ''Koffing'' = ''koffing''" "toLowerCase ''koffing'' = ''koffing''"
  by code_simp+


lemma fetchNewList_success:
  assumes "fetchList env = Response status (Inr l)" "ok status"
  shows "fetchNewList env s =
     s\<lparr>list_requests := Suc (list_requests s), minimalPokemonList := l,
        localStorage := (localStorage s)
          (CACHE_KEY_MINIMAL_LIST \<mapsto>
             \<lparr>stored_timestamp = context_clock env (context_reads s), stored_data = l\<rparr>),
        context_reads := Suc (context_reads s), isLoadingMinimalList := False\<rparr>"
  using assms by (simp add: fetchNewList_def)

lemma fetchNewList_requests: "list_requests (fetchNewList env s) = Suc (list_requests s)"
proof (cases "fetchList env")
  case (Rejected msg)
  then show ?thesis by (simp add: fetchNewList_def)
next
  case (Response status body)
  then show ?thesis
    by (cases body; cases "ok status") (simp_all add: fetchNewList_def)
qed

lemma list_absent:
  "localStorage s CACHE_KEY_MINIMAL_LIST = None \<Longrightarrow>
   fetchMinimalPokemonList env s
     = fetchNewList env (s\<lparr>isLoadingMinimalList := True, searchError := None\<rparr>)"
  by (simp add: fetchMinimalPokemonList_def)

lemma list_fresh:
  "localStorage s CACHE_KEY_MINIMAL_LIST = Some c \<Longrightarrow>
   context_clock env (context_reads s) - stored_timestamp c < CACHE_DURATION_MS \<Longrightarrow>
   fetchMinimalPokemonList env s
     = s\<lparr>isLoadingMinimalList := True, searchError := None,
         context_reads := Suc (context_reads s),
         minimalPokemonList := stored_data c, isLoadingMinimalList := False\<rparr>"
  by (simp add: fetchMinimalPokemonList_def)

lemma list_expired:
  "localStorage s CACHE_KEY_MINIMAL_LIST = Some c \<Longrightarrow>
   \<not> context_clock env (context_reads s) - stored_timestamp c < CACHE_DURATION_MS \<Longrightarrow>
   fetchMinimalPokemonList env s
     = fetchNewList env
         (s\<lparr>isLoadingMinimalList := True, searchError := None,
            context_reads := Suc (context_reads s),
            localStorage := (localStorage s)(CACHE_KEY_MINIMAL_LIST := None)\<rparr>)"
  by (simp add: fetchMinimalPokemonList_def)

text \<open>
  Claim C6. Detail cache: a lookup that finds no entry and fetches the record stores it
  with the time of the store, and a lookup of the same key before 5 minutes have passed
  returns the stored record without a request; for any stored entry, a lookup within
  5 minutes of its timestamp is served from the cache, and from 5 minutes on it is a
  miss (a preload returns null, any other lookup fetches again). List cache: the same
  with the single key of the search index and a window of 24 hours; an expired entry is
  removed and the list is fetched again.
\<close>

theorem cache_freshness:
  "(pokemonDataCache s (toLowerCase identifier) = None
      \<and> fetchPokemon env (toLowerCase identifier) = Response status (Inr d) \<and> ok status \<longrightarrow>
      fst (fetchPokemonDataByNameOrId env identifier False s) = Some d
      \<and> pokemonDataCache (snd (fetchPokemonDataByNameOrId env identifier False s))
           (toLowerCase identifier)
          = Some \<lparr>data = d, timestamp = clock env (reads s)\<rparr>
      \<and> (clock env (Suc (reads s)) - clock env (reads s) < 5 * 60 * 1000 \<longrightarrow>
           fst (fetchPokemonDataByNameOrId env identifier isPreload
                  (snd (fetchPokemonDataByNameOrId env identifier False s))) = Some d
           \<and> requests (snd (fetchPokemonDataByNameOrId env identifier isPreload
                  (snd (fetchPokemonDataByNameOrId env identifier False s))))
               = requests (snd (fetchPokemonDataByNameOrId env identifier False s))))
   \<and> (pokemonDataCache s (toLowerCase identifier) = Some e \<longrightarrow>
        (clock env (reads s) - timestamp e < 5 * 60 * 1000 \<longrightarrow>
           fetchPokemonDataByNameOrId env identifier isPreload s
             = (Some (data e), s\<lparr>reads := Suc (reads s)\<rparr>))
        \<and> (clock env (reads s) - timestamp e \<ge> 5 * 60 * 1000 \<longrightarrow>
             fetchPokemonDataByNameOrId env identifier True s = (None, s\<lparr>reads := Suc (reads s)\<rparr>)
             \<and> fetchPokemonDataByNameOrId env identifier False s
                 = fetchAndStore env (toLowerCase identifier) False (s\<lparr>reads := Suc (reads s)\<rparr>)
             \<and> requests (snd (fetchPokemonDataByNameOrId env identifier False s))
                 = requests s @ [PokemonRequest (toLowerCase identifier) False]))
   \<and> (localStorage c CACHE_KEY_MINIMAL_LIST = None
        \<and> fetchList cenv = Response cstatus (Inr l) \<and> ok cstatus \<longrightarrow>
        localStorage (fetchMinimalPokemonList cenv c) CACHE_KEY_MINIMAL_LIST
          = Some \<lparr>stored_timestamp = context_clock cenv (context_reads c), stored_data = l\<rparr>
        \<and> (context_clock cenv (Suc (context_reads c)) - context_clock cenv (context_reads c)
              < 24 * 60 * 60 * 1000 \<longrightarrow>
             minimalPokemonList (fetchMinimalPokemonList cenv (fetchMinimalPokemonList cenv c)) = l
             \<and> list_requests (fetchMinimalPokemonList cenv (fetchMinimalPokemonList cenv c))
                 = list_requests (fetchMinimalPokemonList cenv c)))
   \<and> (localStorage c CACHE_KEY_MINIMAL_LIST = Some entry \<longrightarrow>
        (context_clock cenv (context_reads c) - stored_timestamp entry < 24 * 60 * 60 * 1000 \<longrightarrow>
           minimalPokemonList (fetchMinimalPokemonList cenv c) = stored_data entry
           \<and> list_requests (fetchMinimalPokemonList cenv c) = list_requests c
           \<and> localStorage (fetchMinimalPokemonList cenv c) = localStorage c)
        \<and> (context_clock cenv (context_reads c) - stored_timestamp entry \<ge> 24 * 60 * 60 * 1000 \<longrightarrow>
             list_requests (fetchMinimalPokemonList cenv c) = Suc (list_requests c)
             \<and> fetchMinimalPokemonList cenv c
                 = fetchNewList cenv
                     (c\<lparr>isLoadingMinimalList := True, searchError := None,
                        context_reads := Suc (context_reads c),
                        localStorage := (localStorage c)(CACHE_KEY_MINIMAL_LIST := None)\<rparr>)))"
proof (intro conjI impI)
  assume a: "pokemonDataCache s (toLowerCase identifier) = None
      \<and> fetchPokemon env (toLowerCase identifier) = Response status (Inr d) \<and> ok status"
  then have put: "fetchPokemonDataByNameOrId env identifier False s =
     (Some d,
      s\<lparr>requests := requests s @ [PokemonRequest (toLowerCase identifier) False],
         pokemonDataCache := (pokemonDataCache s)
           (toLowerCase identifier \<mapsto> \<lparr>data = d, timestamp = clock env (reads s)\<rparr>),
         reads := Suc (reads s)\<rparr>)"
    by (simp add: lookup_absent fetchAndStore_success)
  show "fst (fetchPokemonDataByNameOrId env identifier False s) = Some d"
    and "pokemonDataCache (snd (fetchPokemonDataByNameOrId env identifier False s))
           (toLowerCase identifier) = Some \<lparr>data = d, timestamp = clock env (reads s)\<rparr>"
    by (simp_all add: put)
  assume "clock env (Suc (reads s)) - clock env (reads s) < 5 * 60 * 1000"
  then show "fst (fetchPokemonDataByNameOrId env identifier isPreload
                  (snd (fetchPokemonDataByNameOrId env identifier False s))) = Some d"
    and "requests (snd (fetchPokemonDataByNameOrId env identifier isPreload
                  (snd (fetchPokemonDataByNameOrId env identifier False s))))
               = requests (snd (fetchPokemonDataByNameOrId env identifier False s))"
    unfolding put by (simp_all add: lookup_fresh CACHE_EXPIRY_MS_def)
next
  assume e: "pokemonDataCache s (toLowerCase identifier) = Some e"
  {
    assume "clock env (reads s) - timestamp e < 5 * 60 * 1000"
    then show "fetchPokemonDataByNameOrId env identifier isPreload s
             = (Some (data e), s\<lparr>reads := Suc (reads s)\<rparr>)"
      using e by (simp add: lookup_fresh CACHE_EXPIRY_MS_def)
  }
  assume "clock env (reads s) - timestamp e \<ge> 5 * 60 * 1000"
  then have x: "\<not> clock env (reads s) - timestamp e < CACHE_EXPIRY_MS"
    by (simp add: CACHE_EXPIRY_MS_def)
  show "fetchPokemonDataByNameOrId env identifier True s = (None, s\<lparr>reads := Suc (reads s)\<rparr>)"
    using e x by (rule lookup_expired_preload)
  show "fetchPokemonDataByNameOrId env identifier False s
         = fetchAndStore env (toLowerCase identifier) False (s\<lparr>reads := Suc (reads s)\<rparr>)"
    using e x by (rule lookup_expired)
  then show "requests (snd (fetchPokemonDataByNameOrId env identifier False s))
                 = requests s @ [PokemonRequest (toLowerCase identifier) False]"
    by (simp add: fetchAndStore_frame(1))
next
  assume a: "localStorage c CACHE_KEY_MINIMAL_LIST = None
        \<and> fetchList cenv = Response cstatus (Inr l) \<and> ok cstatus"
  then have put: "fetchMinimalPokemonList cenv c =
     c\<lparr>isLoadingMinimalList := True, searchError := None,
       list_requests := Suc (list_requests c), minimalPokemonList := l,
       localStorage := (localStorage c)
          (CACHE_KEY_MINIMAL_LIST \<mapsto>
             \<lparr>stored_timestamp = context_clock cenv (context_reads c), stored_data = l\<rparr>),
       context_reads := Suc (context_reads c), isLoadingMinimalList := False\<rparr>"
    by (simp add: list_absent fetchNewList_success)
  show "localStorage (fetchMinimalPokemonList cenv c) CACHE_KEY_MINIMAL_LIST
          = Some \<lparr>stored_timestamp = context_clock cenv (context_reads c), stored_data = l\<rparr>"
    by (simp add: put)
  assume "context_clock cenv (Suc (context_reads c)) - context_clock cenv (context_reads c)
              < 24 * 60 * 60 * 1000"
  then show "minimalPokemonList (fetchMinimalPokemonList cenv (fetchMinimalPokemonList cenv c)) = l"
    and "list_requests (fetchMinimalPokemonList cenv (fetchMinimalPokemonList cenv c))
                 = list_requests (fetchMinimalPokemonList cenv c)"
    unfolding put by (simp_all add: list_fresh CACHE_DURATION_MS_def)
next
  assume e: "localStorage c CACHE_KEY_MINIMAL_LIST = Some entry"
  {
    assume "context_clock cenv (context_reads c) - stored_timestamp entry < 24 * 60 * 60 * 1000"
    then have f: "context_clock cenv (context_reads c) - stored_timestamp entry < CACHE_DURATION_MS"
      by (simp add: CACHE_DURATION_MS_def)
    show "minimalPokemonList (fetchMinimalPokemonList cenv c) = stored_data entry"
      and "list_requests (fetchMinimalPokemonList cenv c) = list_requests c"
      and "localStorage (fetchMinimalPokemonList cenv c) = localStorage c"
      by (simp_all add: list_fresh [OF e f])
  }
  assume "context_clock cenv (context_reads c) - stored_timestamp entry \<ge> 24 * 60 * 60 * 1000"
  then have x: "\<not> context_clock cenv (context_reads c) - stored_timestamp entry < CACHE_DURATION_MS"
    by (simp add: CACHE_DURATION_MS_def)
  show "fetchMinimalPokemonList cenv c
                 = fetchNewList cenv
                     (c\<lparr>isLoadingMinimalList := True, searchError := None,
                        context_reads := Suc (context_reads c),
                        localStorage := (localStorage c)(CACHE_KEY_MINIMAL_LIST := None)\<rparr>)"
    using e x by (rule list_expired)
  then show "list_requests (fetchMinimalPokemonList cenv c) = Suc (list_requests c)"
    by (simp add: fetchNewList_requests)
qed


theorem cache_freshness_witness:
  "fst (fetchPokemonDataByNameOrId sample_env ''Koffing'' False initial_detail_page) = Some koffing
   \<and> fst (fetchPokemonDataByNameOrId sample_env ''Koffing'' False
            (snd (fetchPokemonDataByNameOrId sample_env ''Koffing'' False initial_detail_page)))
       = Some koffing
   \<and> requests (snd (fetchPokemonDataByNameOrId sample_env ''Koffing'' False
            (snd (fetchPokemonDataByNameOrId sample_env ''Koffing'' False initial_detail_page))))
       = requests (snd (fetchPokemonDataByNameOrId sample_env ''Koffing'' False initial_detail_page))
   \<and> fetchPokemonDataByNameOrId sample_env ''Koffing'' True (cached_page\<lparr>reads := 400\<rparr>)
       = (None, cached_page\<lparr>reads := 400, reads := Suc 400\<rparr>)
   \<and> requests (snd (fetchPokemonDataByNameOrId sample_env ''Koffing'' False (cached_page\<lparr>reads := 400\<rparr>)))
       = [PokemonRequest ''koffing'' False]
   \<and> minimalPokemonList (fetchMinimalPokemonList sample_context_env
         (fetchMinimalPokemonList sample_context_env initial_context)) = sample_list
   \<and> list_requests (fetchMinimalPokemonList sample_context_env
         (fetchMinimalPokemonList sample_context_env initial_context))
       = list_requests (fetchMinimalPokemonList sample_context_env initial_context)"
proof -
  note t1 = cache_freshness [of initial_detail_page "''Koffing''" sample_env 200 koffing False
      "\<lparr>data = koffing, timestamp = 0\<rparr>" initial_context sample_context_env 200 sample_list]
  note t2 = cache_freshness [of "cached_page\<lparr>reads := 400\<rparr>" "''Koffing''" sample_env 200 koffing
      False "\<lparr>data = koffing, timestamp = 0\<rparr>" initial_context sample_context_env 200 sample_list]
  have h1: "pokemonDataCache initial_detail_page (toLowerCase ''Koffing'') = None
      \<and> fetchPokemon sample_env (toLowerCase ''Koffing'') = Response 200 (Inr koffing) \<and> ok 200"
    by (simp add: initial_detail_page_def sample_env_def lower_koffing ok_def)
  have c1: "clock sample_env (Suc (reads initial_detail_page)) - clock sample_env (reads initial_detail_page)
      < 5 * 60 * 1000"
    by (simp add: sample_env_def initial_detail_page_def)
  have h2: "pokemonDataCache (cached_page\<lparr>reads := 400\<rparr>) (toLowerCase ''Koffing'')
      = Some \<lparr>data = koffing, timestamp = 0\<rparr>"
    by (simp add: cached_page_def lower_koffing)
  have c2: "clock sample_env (reads (cached_page\<lparr>reads := 400\<rparr>))
      - timestamp \<lparr>data = koffing, timestamp = 0\<rparr> \<ge> 5 * 60 * 1000"
    by (simp add: sample_env_def)
  have r2: "requests (cached_page\<lparr>reads := 400\<rparr>) = []"
    by (simp add: cached_page_def initial_detail_page_def)
  have h3: "localStorage initial_context CACHE_KEY_MINIMAL_LIST = None
      \<and> fetchList sample_context_env = Response 200 (Inr sample_list) \<and> ok 200"
    by (simp add: initial_context_def sample_context_env_def ok_def)
  have c3: "context_clock sample_context_env (Suc (context_reads initial_context))
      - context_clock sample_context_env (context_reads initial_context) < 24 * 60 * 60 * 1000"
    by (simp add: sample_context_env_def initial_context_def)
  from t1 h1 c1 have a: "fst (fetchPokemonDataByNameOrId sample_env ''Koffing'' False initial_detail_page)
        = Some koffing"
    "fst (fetchPokemonDataByNameOrId sample_env ''Koffing'' False
            (snd (fetchPokemonDataByNameOrId sample_env ''Koffing'' False initial_detail_page)))
       = Some koffing"
    "requests (snd (fetchPokemonDataByNameOrId sample_env ''Koffing'' False
            (snd (fetchPokemonDataByNameOrId sample_env ''Koffing'' False initial_detail_page))))
       = requests (snd (fetchPokemonDataByNameOrId sample_env ''Koffing'' False initial_detail_page))"
    by blast+
  from t2 h2 c2 have b: "fetchPokemonDataByNameOrId sample_env ''Koffing'' True (cached_page\<lparr>reads := 400\<rparr>)
       = (None, cached_page\<lparr>reads := 400, reads := Suc (reads (cached_page\<lparr>reads := 400\<rparr>))\<rparr>)"
    "requests (snd (fetchPokemonDataByNameOrId sample_env ''Koffing'' False (cached_page\<lparr>reads := 400\<rparr>)))
       = requests (cached_page\<lparr>reads := 400\<rparr>) @ [PokemonRequest (toLowerCase ''Koffing'') False]"
    by blast+
  from t1 h3 c3 have c: "minimalPokemonList (fetchMinimalPokemonList sample_context_env
         (fetchMinimalPokemonList sample_context_env initial_context)) = sample_list"
    "list_requests (fetchMinimalPokemonList sample_context_env
         (fetchMinimalPokemonList sample_context_env initial_context))
       = list_requests (fetchMinimalPokemonList sample_context_env initial_context)"
    by blast+
  from a b c show ?thesis
    by (simp add: r2 lower_koffing)
qed


end
